theory Spec2Isabelle
  imports Main "HOL-Library.AList"
begin

section \<open>AUTOSAR XML element model and writer\<close>

text \<open>
  A shallow embedding of parts of \<^verbatim>\<open>autosar/xml/element.py\<close> and
  \<^verbatim>\<open>autosar/xml/writer.py\<close>. Python objects live in a store and are named by
  their index; a method that mutates objects takes the store and returns the store it
  leaves behind, together with the exception it raised, if any.
\<close>

subsection \<open>Exceptions\<close>

text \<open>Only the class of a Python exception is kept, not its message.\<close>

datatype error =
    ValueError
  | TypeError
  | KeyError
  | IndexError
  | AttributeError
  | AssertionError
  | RecursionError
  | NotImplementedError
  | OverflowError
  | OSError
  | InvalidOperation

subsection \<open>Packages and elements in a store\<close>

type_synonym obj_id = nat

text \<open>The concrete subclasses of \<^verbatim>\<open>ARElement\<close> that element.py declares.\<close>

datatype element_class =
    CompuMethod
  | DataConstraint
  | Unit
  | SwBaseType
  | ImplementationDataType
  | ApplicationPrimitiveDataType
  | ApplicationArrayDataType
  | ApplicationRecordDataType
  | DataTypeMappingSet
  | SwAddrMethod
  | ConstantSpecification
  | SenderReceiverInterface
  | ApplicationSoftwareComponentType

text \<open>
  \<^verbatim>\<open>Referrable.__init__\<close> gives every referrable a \<^verbatim>\<open>name\<close> and a
  \<^verbatim>\<open>parent\<close> (initially \<^verbatim>\<open>None\<close>). \<^verbatim>\<open>Package.__init__\<close> adds the two
  child lists and the name index \<^verbatim>\<open>_collection_map\<close>, a dict, kept here as an
  association list in insertion order.
\<close>

record referrable =
  name :: string
  parent :: "obj_id option"

record package = referrable +
  elements :: "obj_id list"
  packages :: "obj_id list"
  collection_map :: "(string \<times> obj_id) list"

record element = referrable +
  cls :: element_class

text \<open>
  What a store cell holds: a \<^verbatim>\<open>Package\<close>, an \<^verbatim>\<open>ARElement\<close>, the
  \<^verbatim>\<open>Document\<close> that owns the root packages, or an object of any other class.
\<close>

datatype obj =
    PackageObj package
  | ElementObj element
  | DocumentObj
  | OtherObj

type_synonym store = "obj list"

definition get_obj :: "store \<Rightarrow> obj_id \<Rightarrow> obj" where
  "get_obj s i = (if i < length s then s ! i else OtherObj)"

definition short_name :: "obj \<Rightarrow> string option" where
  "short_name ob =
     (case ob of PackageObj pk \<Rightarrow> Some (name pk)
               | ElementObj el \<Rightarrow> Some (name el)
               | _ \<Rightarrow> None)"

text \<open>\<^verbatim>\<open>key in d\<close> and \<^verbatim>\<open>d[key] = value\<close> on a dict.\<close>

definition dict_contains :: "('k \<times> 'v) list \<Rightarrow> 'k \<Rightarrow> bool" where
  "dict_contains d k = (map_of d k \<noteq> None)"

definition dict_set :: "('k \<times> 'v) list \<Rightarrow> 'k \<Rightarrow> 'v \<Rightarrow> ('k \<times> 'v) list" where
  "dict_set d k v = AList.update k v d"

text \<open>\<^verbatim>\<open>item.parent = value\<close> for an item that is a package or an element.\<close>

definition set_parent :: "store \<Rightarrow> obj_id \<Rightarrow> obj_id option \<Rightarrow> store" where
  "set_parent s i v =
     (case get_obj s i of
        PackageObj pk \<Rightarrow> s[i := PackageObj (pk\<lparr>parent := v\<rparr>)]
      | ElementObj el \<Rightarrow> s[i := ElementObj (el\<lparr>parent := v\<rparr>)]
      | _ \<Rightarrow> s)"

text \<open>An in-place change of the attributes of the package stored at \<open>i\<close>.\<close>

definition update_package :: "store \<Rightarrow> obj_id \<Rightarrow> (package \<Rightarrow> package) \<Rightarrow> store" where
  "update_package s i f =
     (case get_obj s i of PackageObj t \<Rightarrow> s[i := PackageObj (f t)] | _ \<Rightarrow> s)"

text \<open>
  \<^verbatim>\<open>Package.append(self, item)\<close>. The statements run in the source's order on the
  current store, so that an item that is the package itself is handled as Python does.
  The result is the exception raised (\<open>None\<close> for a normal return) and the store at
  that moment. A receiver that is not a package is not a call of this method; the
  model answers \<open>AttributeError\<close> and changes nothing.
\<close>

definition Package_append :: "obj_id \<Rightarrow> obj_id \<Rightarrow> store \<Rightarrow> error option \<times> store" where
  "Package_append self item s =
     (case get_obj s self of
        PackageObj this \<Rightarrow>
          (case get_obj s item of
             PackageObj pkg \<Rightarrow>
               if dict_contains (collection_map this) (name pkg) then (Some ValueError, s)
               else
                 (let s1 = set_parent s item (Some self);
                      s2 = update_package s1 self (\<lambda>t. t\<lparr>packages := packages t @ [item]\<rparr>);
                      s3 = update_package s2 self
                             (\<lambda>t. t\<lparr>collection_map := dict_set (collection_map t) (name pkg) item\<rparr>)
                  in (None, s3))
           | ElementObj elem \<Rightarrow>
               if dict_contains (collection_map this) (name elem) then (Some ValueError, s)
               else
                 (let s1 = set_parent s item (Some self);
                      s2 = update_package s1 self (\<lambda>t. t\<lparr>elements := elements t @ [item]\<rparr>);
                      s3 = update_package s2 self
                             (\<lambda>t. t\<lparr>collection_map := dict_set (collection_map t) (name elem) item\<rparr>)
                  in (None, s3))
           | _ \<Rightarrow> (Some TypeError, s))
      | _ \<Rightarrow> (Some AttributeError, s))"

text \<open>
  \<^verbatim>\<open>Package(name, **kwargs)\<close>. The keyword arguments go to the constructors of the
  base classes, whose attributes (description, category, ...) are not part of this
  model; \<open>kwargs_error\<close> is the exception those constructors raise on the arguments
  given, if any. The new package has no parent and no children.
\<close>

definition Package_init :: "string \<Rightarrow> error option \<Rightarrow> error + package" where
  "Package_init nm kwargs_error =
     (case kwargs_error of
        Some e \<Rightarrow> Inl e
      | None \<Rightarrow> Inr \<lparr>name = nm, parent = None, elements = [], packages = [], collection_map = []\<rparr>)"

text \<open>
  What \<^verbatim>\<open>Package.create_package\<close> hands back to its caller with \<^verbatim>\<open>return\<close>:
  the new package, or an exception object.
\<close>

datatype returned = ReturnedPackage obj_id | ReturnedException error

text \<open>
  \<^verbatim>\<open>Package.create_package(self, name, **kwargs)\<close>. The outer sum is \<open>Inl\<close> for an
  exception that is raised and \<open>Inr\<close> for a value that is returned. The new package
  object is allocated at the end of the store.
\<close>

definition create_package ::
  "obj_id \<Rightarrow> string \<Rightarrow> error option \<Rightarrow> store \<Rightarrow> (error + returned) \<times> store" where
  "create_package self nm kwargs_error s =
     (case get_obj s self of
        PackageObj this \<Rightarrow>
          if dict_contains (collection_map this) nm then (Inr (ReturnedException ValueError), s)
          else
            (case Package_init nm kwargs_error of
               Inl e \<Rightarrow> (Inl e, s)
             | Inr pkg \<Rightarrow>
                 (let new = length s;
                      s0 = s @ [PackageObj pkg];
                      s1 = update_package s0 self
                             (\<lambda>t. t\<lparr>collection_map := dict_set (collection_map t) nm new\<rparr>);
                      s2 = update_package s1 self (\<lambda>t. t\<lparr>packages := packages t @ [new]\<rparr>);
                      s3 = set_parent s2 new (Some self)
                  in (Inr (ReturnedPackage new), s3)))
      | _ \<Rightarrow> (Inl AttributeError, s))"

subsection \<open>References\<close>

text \<open>
  The members of \<^verbatim>\<open>ar_enum.IdentifiableSubTypes\<close> that element.py names. The
  enumeration is declared in \<^verbatim>\<open>autosar/xml/enumeration.py\<close>, which is not among
  the sources; only the identity of its members matters here.
\<close>

datatype IdentifiableSubTypes =
    ABSTRACT_IMPLEMENTATION_DATA_TYPE
  | APPLICATION_ARRAY_DATA_TYPE
  | APPLICATION_ASSOC_MAP_DATA_TYPE
  | APPLICATION_COMPOSITE_DATA_TYPE
  | APPLICATION_DATA_TYPE
  | APPLICATION_DEFERRED_DATA_TYPE
  | APPLICATION_PRIMITIVE_DATA_TYPE
  | APPLICATION_RECORD_DATA_TYPE
  | AUTOSAR_DATA_TYPE
  | BSW_MODULE_ENTRY
  | COMPU_METHOD
  | CONSTANT_SPECIFICATION
  | DATA_CONSTR
  | IMPLEMENTATION_DATA_TYPE
  | PHYSICAL_DIMENSION
  | SW_ADDR_METHOD
  | SW_BASE_TYPE
  | UNIT

text \<open>The subclasses of \<^verbatim>\<open>BaseRef\<close>.\<close>

datatype ref_class =
    CompuMethodRef
  | FunctionPtrSignatureRef
  | ImplementationDataTypeRef
  | SwAddrMethodRef
  | SwBaseTypeRef
  | DataConstraintRef
  | PhysicalDimensionRef
  | UnitRef
  | IndexDataTypeRef
  | ApplicationDataTypeRef
  | AutosarDataTypeRef
  | ConstantRef

text \<open>\<^verbatim>\<open>_accepted_subtypes\<close>, the method each subclass overrides.\<close>

fun accepted_subtypes :: "ref_class \<Rightarrow> IdentifiableSubTypes set" where
  "accepted_subtypes CompuMethodRef = {COMPU_METHOD}"
| "accepted_subtypes FunctionPtrSignatureRef = {BSW_MODULE_ENTRY}"
| "accepted_subtypes ImplementationDataTypeRef = {IMPLEMENTATION_DATA_TYPE}"
| "accepted_subtypes SwAddrMethodRef = {SW_ADDR_METHOD}"
| "accepted_subtypes SwBaseTypeRef = {SW_BASE_TYPE}"
| "accepted_subtypes DataConstraintRef = {DATA_CONSTR}"
| "accepted_subtypes PhysicalDimensionRef = {PHYSICAL_DIMENSION}"
| "accepted_subtypes UnitRef = {UNIT}"
| "accepted_subtypes IndexDataTypeRef = {APPLICATION_PRIMITIVE_DATA_TYPE}"
| "accepted_subtypes ApplicationDataTypeRef =
     {APPLICATION_ARRAY_DATA_TYPE, APPLICATION_ASSOC_MAP_DATA_TYPE,
      APPLICATION_COMPOSITE_DATA_TYPE, APPLICATION_DATA_TYPE,
      APPLICATION_DEFERRED_DATA_TYPE, APPLICATION_PRIMITIVE_DATA_TYPE,
      APPLICATION_RECORD_DATA_TYPE}"
| "accepted_subtypes AutosarDataTypeRef =
     {ABSTRACT_IMPLEMENTATION_DATA_TYPE, APPLICATION_ARRAY_DATA_TYPE,
      APPLICATION_ASSOC_MAP_DATA_TYPE, APPLICATION_COMPOSITE_DATA_TYPE,
      APPLICATION_DATA_TYPE, APPLICATION_DEFERRED_DATA_TYPE,
      APPLICATION_PRIMITIVE_DATA_TYPE, APPLICATION_RECORD_DATA_TYPE,
      AUTOSAR_DATA_TYPE, IMPLEMENTATION_DATA_TYPE}"
| "accepted_subtypes ConstantRef = {CONSTANT_SPECIFICATION}"

text \<open>
  A reference object: its class and its two attributes. \<^verbatim>\<open>value\<close> is stored as it
  is given, whatever its type, hence the type parameter.
\<close>

datatype 'v base_ref =
  BaseRef (ref_cls: ref_class) (ref_value: 'v) (dest: "IdentifiableSubTypes option")

text \<open>
  \<^verbatim>\<open>BaseRef.__init__(self, value, dest)\<close> on an object of class \<open>c\<close>: \<^verbatim>\<open>value\<close> is
  stored, \<^verbatim>\<open>dest\<close> is set to \<^verbatim>\<open>None\<close> and then to the argument if the membership
  test succeeds; when it fails the constructor raises and no object is handed out.
\<close>

definition BaseRef_init :: "ref_class \<Rightarrow> 'v \<Rightarrow> IdentifiableSubTypes \<Rightarrow> error + 'v base_ref" where
  "BaseRef_init c v d =
     (if d \<in> accepted_subtypes c then Inr (BaseRef c v (Some d)) else Inl ValueError)"

text \<open>\<^verbatim>\<open>BaseRef.__str__\<close>.\<close>

definition ref_str :: "'v base_ref \<Rightarrow> 'v" where
  "ref_str r = ref_value r"

text \<open>The constructors of the subclasses that fix the destination themselves.\<close>

definition CompuMethodRef_init :: "'v \<Rightarrow> error + 'v base_ref" where
  "CompuMethodRef_init v = BaseRef_init CompuMethodRef v COMPU_METHOD"

definition ImplementationDataTypeRef_init :: "'v \<Rightarrow> error + 'v base_ref" where
  "ImplementationDataTypeRef_init v = BaseRef_init ImplementationDataTypeRef v IMPLEMENTATION_DATA_TYPE"

definition SwAddrMethodRef_init :: "'v \<Rightarrow> error + 'v base_ref" where
  "SwAddrMethodRef_init v = BaseRef_init SwAddrMethodRef v SW_ADDR_METHOD"

definition SwBaseTypeRef_init :: "'v \<Rightarrow> error + 'v base_ref" where
  "SwBaseTypeRef_init v = BaseRef_init SwBaseTypeRef v SW_BASE_TYPE"

definition DataConstraintRef_init :: "'v \<Rightarrow> error + 'v base_ref" where
  "DataConstraintRef_init v = BaseRef_init DataConstraintRef v DATA_CONSTR"

definition PhysicalDimensionRef_init :: "'v \<Rightarrow> error + 'v base_ref" where
  "PhysicalDimensionRef_init v = BaseRef_init PhysicalDimensionRef v PHYSICAL_DIMENSION"

definition ConstantRef_init :: "'v \<Rightarrow> error + 'v base_ref" where
  "ConstantRef_init v = BaseRef_init ConstantRef v CONSTANT_SPECIFICATION"

subsection \<open>Reference paths\<close>

text \<open>\<^verbatim>\<open>sep.join(parts)\<close>.\<close>

fun join :: "string \<Rightarrow> string list \<Rightarrow> string" where
  "join sep [] = []"
| "join sep [x] = x"
| "join sep (x # y # ys) = x @ sep @ join sep (y # ys)"

text \<open>
  Modelled from the spec: \<^verbatim>\<open>Document.update_ref_parts\<close>, the end of the walk up
  the parent links. The class \<^verbatim>\<open>Document\<close> (autosar/xml/document.py) is not among
  the sources. The spec derives a path by joining the short names met on the way to
  the document root; the document has no short name and adds nothing.
\<close>

definition Document_update_ref_parts :: "string list \<Rightarrow> string list" where
  "Document_update_ref_parts ref_parts = ref_parts"

text \<open>
  \<^verbatim>\<open>x.update_ref_parts(ref_parts)\<close> for the object \<open>x\<close> that a parent attribute
  holds. For a package this is \<^verbatim>\<open>Package.update_ref_parts\<close>: it appends its name
  and calls its own parent. \<^verbatim>\<open>None\<close> and objects of other classes have no such
  method. The list is mutated in place in the source; here it is passed on and
  returned. A parent chain may be cyclic; \<open>depth\<close> is the number of nested calls the
  interpreter still allows before it raises \<^verbatim>\<open>RecursionError\<close>.
\<close>

fun update_ref_parts :: "nat \<Rightarrow> store \<Rightarrow> obj_id option \<Rightarrow> string list \<Rightarrow> error + string list" where
  "update_ref_parts depth s None ref_parts = Inl AttributeError"
| "update_ref_parts depth s (Some i) ref_parts =
     (case get_obj s i of
        PackageObj pk \<Rightarrow>
          (case depth of
             0 \<Rightarrow> Inl RecursionError
           | Suc d \<Rightarrow> update_ref_parts d s (parent pk) (ref_parts @ [name pk]))
      | DocumentObj \<Rightarrow> Inr (Document_update_ref_parts ref_parts)
      | _ \<Rightarrow> Inl AttributeError)"

text \<open>
  The three lines every \<^verbatim>\<open>ref\<close> method shares once it knows that the element has
  a parent: start the list with the element's name, let the parent chain extend it,
  join the reversed list with slashes.
\<close>

definition ref_path :: "nat \<Rightarrow> store \<Rightarrow> element \<Rightarrow> error + string" where
  "ref_path depth s el =
     (case update_ref_parts depth s (parent el) [name el] of
        Inl e \<Rightarrow> Inl e
      | Inr ref_parts \<Rightarrow> Inr (join ''/'' (rev ref_parts)))"

text \<open>
  The two shapes of \<^verbatim>\<open>ref\<close> in element.py: one returns \<^verbatim>\<open>None\<close> for an element
  without a parent, the other asserts that there is a parent. \<open>mk\<close> is the
  constructor of the reference class the method returns.
\<close>

definition ref_or_none ::
  "nat \<Rightarrow> store \<Rightarrow> element \<Rightarrow> (string \<Rightarrow> error + string base_ref) \<Rightarrow> error + string base_ref option" where
  "ref_or_none depth s el mk =
     (if parent el = None then Inr None
      else case ref_path depth s el of
             Inl e \<Rightarrow> Inl e
           | Inr v \<Rightarrow> (case mk v of Inl e \<Rightarrow> Inl e | Inr r \<Rightarrow> Inr (Some r)))"

definition ref_asserted ::
  "nat \<Rightarrow> store \<Rightarrow> element \<Rightarrow> (string \<Rightarrow> error + string base_ref) \<Rightarrow> error + string base_ref option" where
  "ref_asserted depth s el mk =
     (if parent el = None then Inl AssertionError
      else case ref_path depth s el of
             Inl e \<Rightarrow> Inl e
           | Inr v \<Rightarrow> (case mk v of Inl e \<Rightarrow> Inl e | Inr r \<Rightarrow> Inr (Some r)))"

text \<open>
  \<^verbatim>\<open>elem.ref()\<close>, dispatched on the class of the element as Python does. Four of
  the element classes define no \<^verbatim>\<open>ref\<close> method.
\<close>

definition ref :: "nat \<Rightarrow> store \<Rightarrow> obj_id \<Rightarrow> error + string base_ref option" where
  "ref depth s i =
     (case get_obj s i of
        ElementObj el \<Rightarrow>
          (case cls el of
             CompuMethod \<Rightarrow> ref_or_none depth s el CompuMethodRef_init
           | DataConstraint \<Rightarrow> ref_asserted depth s el DataConstraintRef_init
           | SwBaseType \<Rightarrow> ref_or_none depth s el SwBaseTypeRef_init
           | ImplementationDataType \<Rightarrow> ref_or_none depth s el ImplementationDataTypeRef_init
           | ApplicationPrimitiveDataType \<Rightarrow>
               ref_or_none depth s el
                 (\<lambda>v. BaseRef_init ApplicationDataTypeRef v APPLICATION_PRIMITIVE_DATA_TYPE)
           | ApplicationArrayDataType \<Rightarrow>
               ref_or_none depth s el
                 (\<lambda>v. BaseRef_init ApplicationDataTypeRef v APPLICATION_ARRAY_DATA_TYPE)
           | ApplicationRecordDataType \<Rightarrow>
               ref_or_none depth s el
                 (\<lambda>v. BaseRef_init ApplicationDataTypeRef v APPLICATION_RECORD_DATA_TYPE)
           | SwAddrMethod \<Rightarrow> ref_asserted depth s el SwAddrMethodRef_init
           | ConstantSpecification \<Rightarrow> ref_asserted depth s el ConstantRef_init
           | _ \<Rightarrow> Inl AttributeError)
      | _ \<Rightarrow> Inl AttributeError)"

subsection \<open>An example tree\<close>

text \<open>
  A document (object 0) with root package \<open>A\<close> (1), which holds the packages \<open>B\<close> (2)
  and \<open>E\<close> (4); \<open>B\<close> holds the computation method \<open>C\<close> (3). Objects 5 and 6 are a
  data constraint and a computation method, both named \<open>C\<close>, that no package owns.
\<close>

definition example_store :: store where
  "example_store =
     [DocumentObj,
      PackageObj \<lparr>name = ''A'', parent = Some 0, elements = [], packages = [2, 4],
                  collection_map = [(''B'', 2), (''E'', 4)]\<rparr>,
      PackageObj \<lparr>name = ''B'', parent = Some 1, elements = [3], packages = [],
                  collection_map = [(''C'', 3)]\<rparr>,
      ElementObj \<lparr>name = ''C'', parent = Some 2, cls = CompuMethod\<rparr>,
      PackageObj \<lparr>name = ''E'', parent = Some 1, elements = [], packages = [],
                  collection_map = []\<rparr>,
      ElementObj \<lparr>name = ''C'', parent = None, cls = DataConstraint\<rparr>,
      ElementObj \<lparr>name = ''C'', parent = None, cls = CompuMethod\<rparr>]"

text \<open>The example tree after the parentless computation method 6 was appended to \<open>E\<close>.\<close>

definition example_store_appended :: store where
  "example_store_appended =
     [DocumentObj,
      PackageObj \<lparr>name = ''A'', parent = Some 0, elements = [], packages = [2, 4],
                  collection_map = [(''B'', 2), (''E'', 4)]\<rparr>,
      PackageObj \<lparr>name = ''B'', parent = Some 1, elements = [3], packages = [],
                  collection_map = [(''C'', 3)]\<rparr>,
      ElementObj \<lparr>name = ''C'', parent = Some 2, cls = CompuMethod\<rparr>,
      PackageObj \<lparr>name = ''E'', parent = Some 1, elements = [6], packages = [],
                  collection_map = [(''C'', 6)]\<rparr>,
      ElementObj \<lparr>name = ''C'', parent = None, cls = DataConstraint\<rparr>,
      ElementObj \<lparr>name = ''C'', parent = Some 4, cls = CompuMethod\<rparr>]"

text \<open>The example tree after the computation method 3 was moved from \<open>B\<close> to \<open>E\<close>.\<close>

definition example_store_moved :: store where
  "example_store_moved =
     [DocumentObj,
      PackageObj \<lparr>name = ''A'', parent = Some 0, elements = [], packages = [2, 4],
                  collection_map = [(''B'', 2), (''E'', 4)]\<rparr>,
      PackageObj \<lparr>name = ''B'', parent = Some 1, elements = [3], packages = [],
                  collection_map = [(''C'', 3)]\<rparr>,
      ElementObj \<lparr>name = ''C'', parent = Some 4, cls = CompuMethod\<rparr>,
      PackageObj \<lparr>name = ''E'', parent = Some 1, elements = [3], packages = [],
                  collection_map = [(''C'', 3)]\<rparr>,
      ElementObj \<lparr>name = ''C'', parent = None, cls = DataConstraint\<rparr>,
      ElementObj \<lparr>name = ''C'', parent = None, cls = CompuMethod\<rparr>]"

subsection \<open>Python values\<close>

text \<open>
  A finite float enters the model as the decimal number that
  \<^verbatim>\<open>decimal.Decimal(str(value))\<close> builds from its shortest repr: a sign (\<open>True\<close> for
  minus), the digits as a natural number and a power of ten. That, its sign and
  whether it is infinite or NaN is all the modelled code reads of a float; binary
  floating-point arithmetic is not modelled.
\<close>

record decimal =
  negative :: bool
  coefficient :: nat
  exponent :: int

datatype pyfloat = Finite decimal | PosInf | NegInf | NaN

text \<open>
  The plain data that \<^verbatim>\<open>make_value\<close> takes apart. \<open>PyOther\<close> stands for a value
  of any other type (a dict, a set, an object).
\<close>

datatype pyval =
    PyNone
  | PyBool bool
  | PyInt int
  | PyFloat pyfloat
  | PyStr string
  | PyList "pyval list"
  | PyTuple "pyval list"
  | PyOther

text \<open>
  \<^verbatim>\<open>str.upper()\<close> on the ASCII letters. A character of the model is a byte;
  Python's \<^verbatim>\<open>upper\<close> also maps letters beyond ASCII, but never to a string of
  ASCII letters only unless an I, S, N, J, H, T, W, F or L is among them, so the
  comparisons with \<^verbatim>\<open>"A"\<close>, \<^verbatim>\<open>"ARRAY"\<close>, \<^verbatim>\<open>"R"\<close> and \<^verbatim>\<open>"RECORD"\<close> below are not
  affected.
\<close>

definition upper_char :: "char \<Rightarrow> char" where
  "upper_char c =
     (let n = (of_char c :: nat) in if 97 \<le> n \<and> n \<le> 122 then char_of (n - 32) else c)"

definition upper :: "string \<Rightarrow> string" where
  "upper s = map upper_char s"

subsection \<open>Value specifications\<close>

text \<open>
  The members of \<^verbatim>\<open>ar_enum.ValueFormat\<close> that the sources name (the enumeration
  is declared in enumeration.py, which is not among them); \<open>OtherFormat\<close> stands
  for any other object found in a \<^verbatim>\<open>value_format\<close> attribute.
\<close>

datatype ValueFormat = DEFAULT | DECIMAL | HEXADECIMAL | BINARY | SCIENTIFIC | OtherFormat

text \<open>
  The value-specification classes that \<^verbatim>\<open>make_value\<close> builds, each with its label
  first. A numerical value is kept as the Python number it was given
  (\<open>PyInt\<close>, \<open>PyBool\<close> or \<open>PyFloat\<close>), a default pattern as whatever the caller put
  in the tuple.
\<close>

datatype value_specification =
    TextValueSpecification "string option" "string option"
  | NumericalValueSpecification "string option" pyval
  | NotAvailableValueSpecification "string option" pyval ValueFormat
  | ArrayValueSpecification "string option" "value_specification list"
  | RecordValueSpecification "string option" "value_specification list"

text \<open>
  \<^verbatim>\<open>NotAvailableValueSpecification.__init__(label, default_pattern)\<close>: a negative
  integer pattern is refused (a bool is an integer in Python, and never negative).
\<close>

definition NotAvailableValueSpecification_init ::
  "string option \<Rightarrow> pyval \<Rightarrow> error + value_specification" where
  "NotAvailableValueSpecification_init label default_pattern =
     (case default_pattern of
        PyInt i \<Rightarrow>
          if i < 0 then Inl ValueError
          else Inr (NotAvailableValueSpecification label default_pattern DEFAULT)
      | _ \<Rightarrow> Inr (NotAvailableValueSpecification label default_pattern DEFAULT))"

text \<open>
  \<^verbatim>\<open>ValueSpecification.make_value\<close> with \<^verbatim>\<open>_make_from_args\<close>,
  \<^verbatim>\<open>_make_array_value_spefication\<close> and \<^verbatim>\<open>_make_record_value_spefication\<close>.
  \<open>make_values\<close> is the loop of the latter two: it builds the elements in order and
  stops at the first that raises. The constructors \<^verbatim>\<open>ArrayValueSpecification\<close>
  and \<^verbatim>\<open>RecordValueSpecification\<close> then append every element after a type test
  that a value specification always passes. The label of a tuple is known to be a
  string when \<open>make_from_args\<close> is reached.
\<close>

fun make_value :: "pyval \<Rightarrow> error + value_specification"
  and make_from_args :: "string option \<Rightarrow> pyval \<Rightarrow> pyval \<Rightarrow> error + value_specification"
  and make_values :: "pyval list \<Rightarrow> error + value_specification list"
where
  "make_value (PyTuple []) = Inl IndexError"
| "make_value (PyTuple [PyStr label, v]) = make_from_args (Some label) v PyNone"
| "make_value (PyTuple [PyStr label, v, default_pattern]) = make_from_args (Some label) v default_pattern"
| "make_value (PyTuple (PyStr label # _)) = Inl ValueError"
| "make_value (PyTuple (_ # _)) = Inl TypeError"
| "make_value data = make_from_args None data PyNone"
| "make_from_args label (PyInt i) default_pattern = Inr (NumericalValueSpecification label (PyInt i))"
| "make_from_args label (PyBool b) default_pattern = Inr (NumericalValueSpecification label (PyBool b))"
| "make_from_args label (PyFloat f) default_pattern = Inr (NumericalValueSpecification label (PyFloat f))"
| "make_from_args label (PyStr v) default_pattern = Inr (TextValueSpecification label (Some v))"
| "make_from_args label PyNone default_pattern = NotAvailableValueSpecification_init label default_pattern"
| "make_from_args label (PyList []) default_pattern = Inl IndexError"
| "make_from_args label (PyList (PyStr kind # vs)) default_pattern =
     (if upper kind = ''A'' \<or> upper kind = ''ARRAY'' then
        (case make_values vs of
           Inl e \<Rightarrow> Inl e
         | Inr elems \<Rightarrow> Inr (ArrayValueSpecification label elems))
      else if upper kind = ''R'' \<or> upper kind = ''RECORD'' then
        (case make_values vs of
           Inl e \<Rightarrow> Inl e
         | Inr flds \<Rightarrow> Inr (RecordValueSpecification label flds))
      else Inl ValueError)"
| "make_from_args label (PyList (_ # vs)) default_pattern = Inl TypeError"
| "make_from_args label _ default_pattern = Inl TypeError"
| "make_values [] = Inr []"
| "make_values (v # vs) =
     (case make_value v of
        Inl e \<Rightarrow> Inl e
      | Inr x \<Rightarrow> (case make_values vs of Inl e \<Rightarrow> Inl e | Inr xs \<Rightarrow> Inr (x # xs)))"

subsection \<open>Units\<close>

text \<open>
  \<^verbatim>\<open>SingleLanguageUnitNames\<close>: a list of parts, each a string, a subscript or a
  superscript. Built from a string, the constructor iterates over the string (a
  string is an \<^verbatim>\<open>Iterable\<close>) and appends every character as a part of its own.
\<close>

datatype unit_name_part = UnitNameStr string | UnitNameSubscript string | UnitNameSuperscript string

datatype SingleLanguageUnitNames = SingleLanguageUnitNames (unit_name_parts: "unit_name_part list")

definition SingleLanguageUnitNames_of_str :: "string \<Rightarrow> SingleLanguageUnitNames" where
  "SingleLanguageUnitNames_of_str s = SingleLanguageUnitNames (map (\<lambda>c. UnitNameStr [c]) s)"

text \<open>
  What a caller may pass for \<^verbatim>\<open>display_name\<close> and \<^verbatim>\<open>physical_dimension_ref\<close>:
  \<^verbatim>\<open>None\<close>, a string, a \<^verbatim>\<open>SingleLanguageUnitNames\<close>, a reference object, or
  anything else. A reference stores whatever value it was built with, so its value
  is again of this type.
\<close>

datatype unit_arg =
    ArgNone
  | ArgStr string
  | ArgUnitNames SingleLanguageUnitNames
  | ArgRef "unit_arg base_ref"
  | ArgOther

text \<open>The attributes of a \<^verbatim>\<open>Unit\<close>; \<open>'f\<close> is the type of Python floats.\<close>

record 'f unit_element = referrable +
  display_name :: "SingleLanguageUnitNames option"
  physical_dimension_ref :: "unit_arg base_ref option"
  factor :: "'f option"
  offset :: "'f option"

text \<open>
  \<^verbatim>\<open>_assign_optional(attr, value, float)\<close>: nothing for \<^verbatim>\<open>None\<close>, otherwise the
  cast \<^verbatim>\<open>float(value)\<close> of \<^verbatim>\<open>_set_attr_with_type_cast\<close>, which may raise.
  \<open>to_float\<close> is Python's built-in \<^verbatim>\<open>float\<close>.
\<close>

definition assign_optional_float :: "(pyval \<Rightarrow> error + 'f) \<Rightarrow> pyval \<Rightarrow> error + 'f option" where
  "assign_optional_float to_float v =
     (case v of
        PyNone \<Rightarrow> Inr None
      | _ \<Rightarrow> (case to_float v of Inl e \<Rightarrow> Inl e | Inr f \<Rightarrow> Inr (Some f)))"

text \<open>
  \<^verbatim>\<open>Unit.__init__(name, display_name, factor, offset, physical_dimension_ref, **kwargs)\<close>.
  As for a package, \<open>kwargs_error\<close> is what the base-class constructors raise on
  the keyword arguments, if anything. The branch for a string
  \<^verbatim>\<open>physical_dimension_ref\<close> calls \<^verbatim>\<open>PhysicalDimensionRef(display_name)\<close>, with
  the argument \<^verbatim>\<open>display_name\<close> as the caller gave it.
\<close>

definition Unit_init ::
  "(pyval \<Rightarrow> error + 'f) \<Rightarrow> string \<Rightarrow> unit_arg \<Rightarrow> pyval \<Rightarrow> pyval \<Rightarrow> unit_arg \<Rightarrow> error option
     \<Rightarrow> error + 'f unit_element" where
  "Unit_init to_float nm display_name_arg factor_arg offset_arg physical_dimension_ref_arg kwargs_error =
     (case kwargs_error of
        Some e \<Rightarrow> Inl e
      | None \<Rightarrow>
          (case (case display_name_arg of
                   ArgNone \<Rightarrow> Inr None
                 | ArgStr d \<Rightarrow> Inr (Some (SingleLanguageUnitNames_of_str d))
                 | ArgUnitNames u \<Rightarrow> Inr (Some u)
                 | _ \<Rightarrow> Inl TypeError) of
             Inl e \<Rightarrow> Inl e
           | Inr dn \<Rightarrow>
               (case (case physical_dimension_ref_arg of
                        ArgNone \<Rightarrow> Inr None
                      | ArgStr path \<Rightarrow>
                          (case PhysicalDimensionRef_init display_name_arg of
                             Inl e \<Rightarrow> Inl e
                           | Inr r \<Rightarrow> Inr (Some r))
                      | ArgRef r \<Rightarrow>
                          if ref_cls r = PhysicalDimensionRef then Inr (Some r) else Inl TypeError
                      | _ \<Rightarrow> Inl TypeError) of
                  Inl e \<Rightarrow> Inl e
                | Inr pdr \<Rightarrow>
                    (case assign_optional_float to_float factor_arg of
                       Inl e \<Rightarrow> Inl e
                     | Inr f \<Rightarrow>
                         (case assign_optional_float to_float offset_arg of
                            Inl e \<Rightarrow> Inl e
                          | Inr off \<Rightarrow>
                              Inr \<lparr>name = nm, parent = None, display_name = dn,
                                   physical_dimension_ref = pdr, factor = f, offset = off\<rparr>)))))"

subsection \<open>Numbers as text\<close>

text \<open>
  The digits of a natural number in base 2, 10 or 16, most significant first, as
  \<^verbatim>\<open>str\<close> and the format codes \<^verbatim>\<open>b\<close> and \<^verbatim>\<open>x\<close> print them.
\<close>

definition digit_char :: "nat \<Rightarrow> char" where
  "digit_char n = ''0123456789abcdef'' ! n"

function to_base :: "nat \<Rightarrow> nat \<Rightarrow> string" where
  "to_base b n = (if b < 2 \<or> n < b then [digit_char n] else to_base b (n div b) @ [digit_char (n mod b)])"
  by pat_completeness auto
termination
  by (relation "measure snd") auto

declare to_base.simps [simp del]

text \<open>\<^verbatim>\<open>str(i)\<close>, \<^verbatim>\<open>format(i, 'x')\<close> and \<^verbatim>\<open>format(i, 'b')\<close> for an integer.\<close>

definition signed_digits :: "nat \<Rightarrow> int \<Rightarrow> string" where
  "signed_digits b i = (if i < 0 then ''-'' @ to_base b (nat (- i)) else to_base b (nat i))"

definition str_int :: "int \<Rightarrow> string" where
  "str_int i = signed_digits 10 i"

definition format_x :: "int \<Rightarrow> string" where
  "format_x i = signed_digits 16 i"

definition format_b :: "int \<Rightarrow> string" where
  "format_b i = signed_digits 2 i"

text \<open>\<^verbatim>\<open>str(b)\<close> for a bool.\<close>

definition str_bool :: "bool \<Rightarrow> string" where
  "str_bool b = (if b then ''True'' else ''False'')"

text \<open>
  Rounding the quotient of \<open>c\<close> by \<open>d\<close> to the nearest natural number, a tie to the
  even neighbour.
\<close>

definition round_half_even_div :: "nat \<Rightarrow> nat \<Rightarrow> nat" where
  "round_half_even_div c d =
     (let q = c div d; r = c mod d
      in if d < 2 * r \<or> (2 * r = d \<and> odd q) then q + 1 else q)"

text \<open>
  \<^verbatim>\<open>float(i)\<close> for an integer, as the integer it denotes: the nearest number with
  53 significant bits, or \<open>OverflowError\<close> beyond the range of a double.
\<close>

definition bit_length :: "nat \<Rightarrow> nat" where
  "bit_length m = (if m = 0 then 0 else length (to_base 2 m))"

definition float_of_int_magnitude :: "nat \<Rightarrow> error + nat" where
  "float_of_int_magnitude m =
     (let shift = bit_length m - 53;
          r = round_half_even_div m (2 ^ shift) * 2 ^ shift
      in if 2 ^ 1024 \<le> r then Inl OverflowError else Inr r)"

text \<open>
  \<^verbatim>\<open>format(i, 'e')\<close> for an integer: the integer becomes a float, and the float is
  printed with one digit before the point, six after it, rounded half to even on
  its exact value, and an exponent with a sign and at least two digits.
\<close>

definition format_e_magnitude :: "nat \<Rightarrow> string" where
  "format_e_magnitude m =
     (if m = 0 then ''0.000000e+00''
      else
        (let nd = length (to_base 10 m);
             mant0 = (if nd \<le> 7 then m * 10 ^ (7 - nd) else round_half_even_div m (10 ^ (nd - 7)));
             carry = (mant0 = 10 ^ 7);
             mant = (if carry then 10 ^ 6 else mant0);
             e10 = (if carry then nd else nd - 1);
             ds = to_base 10 mant;
             es = to_base 10 e10
         in take 1 ds @ ''.'' @ drop 1 ds @ ''e+'' @ (if length es < 2 then ''0'' @ es else es)))"

definition format_e_int :: "int \<Rightarrow> error + string" where
  "format_e_int i =
     (case float_of_int_magnitude (nat \<bar>i\<bar>) of
        Inl e \<Rightarrow> Inl e
      | Inr m \<Rightarrow> Inr ((if i < 0 then ''-'' else '''') @ format_e_magnitude m))"

subsection \<open>Decimal numbers\<close>

text \<open>
  The operations of Python's \<^verbatim>\<open>decimal\<close> module that the float formatter calls, in
  the default context: precision 28, rounding half to even, largest exponent
  999999, and \<open>InvalidOperation\<close> trapped, that is, raised. The coefficient of a
  \<^verbatim>\<open>Decimal\<close> is a string of digits without leading zeros; here it is the number
  they denote.
\<close>

definition prec :: nat where
  "prec = 28"

definition Emax :: int where
  "Emax = 999999"

definition ndigits :: "nat \<Rightarrow> nat" where
  "ndigits c = length (to_base 10 c)"

text \<open>\<^verbatim>\<open>Decimal.adjusted()\<close>: the exponent of the most significant digit.\<close>

definition adjusted :: "decimal \<Rightarrow> int" where
  "adjusted d = exponent d + int (ndigits (coefficient d)) - 1"

text \<open>\<^verbatim>\<open>Decimal._rescale(0, ROUND_HALF_EVEN)\<close>: the same number with exponent 0, rounded.\<close>

definition rescale0 :: "decimal \<Rightarrow> decimal" where
  "rescale0 d =
     (if 0 \<le> exponent d
      then d\<lparr>coefficient := coefficient d * 10 ^ nat (exponent d), exponent := 0\<rparr>
      else d\<lparr>coefficient := round_half_even_div (coefficient d) (10 ^ nat (- exponent d)),
             exponent := 0\<rparr>)"

text \<open>\<^verbatim>\<open>Decimal.to_integral()\<close>: the number itself when its exponent is not negative.\<close>

definition to_integral :: "decimal \<Rightarrow> decimal" where
  "to_integral d = (if 0 \<le> exponent d then d else rescale0 d)"

text \<open>\<^verbatim>\<open>a == b\<close> on two finite decimals: equality of the numbers; the two zeros are equal.\<close>

definition Decimal_eq :: "decimal \<Rightarrow> decimal \<Rightarrow> bool" where
  "Decimal_eq a b =
     (if coefficient a = 0 \<or> coefficient b = 0 then coefficient a = 0 \<and> coefficient b = 0
      else negative a = negative b \<and>
           (let m = min (exponent a) (exponent b)
            in coefficient a * 10 ^ nat (exponent a - m) = coefficient b * 10 ^ nat (exponent b - m)))"

text \<open>
  \<^verbatim>\<open>d.quantize(Decimal(1))\<close>. Unlike other operations, quantize signals
  \<open>InvalidOperation\<close> when the coefficient of the result would be longer than the
  precision.
\<close>

definition quantize1 :: "decimal \<Rightarrow> error + decimal" where
  "quantize1 d =
     (if coefficient d = 0 then Inr \<lparr>negative = negative d, coefficient = 0, exponent = 0\<rparr>
      else if Emax < adjusted d then Inl InvalidOperation
      else if int prec < adjusted d + 1 then Inl InvalidOperation
      else
        (let ans = rescale0 d
         in if Emax < adjusted ans then Inl InvalidOperation
            else if prec < ndigits (coefficient ans) then Inl InvalidOperation
            else Inr ans))"

text \<open>
  \<^verbatim>\<open>Decimal._fix\<close>, the rounding to the precision of the context that
  \<^verbatim>\<open>normalize\<close> starts with (exponents are far from the limits of the context for
  every decimal that comes from a float).
\<close>

definition fix_prec :: "decimal \<Rightarrow> decimal" where
  "fix_prec d =
     (if ndigits (coefficient d) \<le> prec then d
      else
        (let k = ndigits (coefficient d) - prec;
             c = round_half_even_div (coefficient d) (10 ^ k)
         in if c = 10 ^ prec
            then d\<lparr>coefficient := 10 ^ (prec - 1), exponent := exponent d + int k + 1\<rparr>
            else d\<lparr>coefficient := c, exponent := exponent d + int k\<rparr>))"

text \<open>The loop of \<^verbatim>\<open>normalize\<close> that drops trailing zeros of a coefficient.\<close>

function strip_zeros :: "nat \<Rightarrow> int \<Rightarrow> nat \<times> int" where
  "strip_zeros c e =
     (if c \<noteq> 0 \<and> c mod 10 = 0 \<and> e < Emax then strip_zeros (c div 10) (e + 1) else (c, e))"
  by pat_completeness auto
termination
  by (relation "measure fst") auto

declare strip_zeros.simps [simp del]

text \<open>\<^verbatim>\<open>Decimal.normalize()\<close>.\<close>

definition normalize_decimal :: "decimal \<Rightarrow> decimal" where
  "normalize_decimal d =
     (let dup = fix_prec d
      in if coefficient dup = 0 then \<lparr>negative = negative dup, coefficient = 0, exponent = 0\<rparr>
         else (case strip_zeros (coefficient dup) (exponent dup) of
                 (c, e) \<Rightarrow> \<lparr>negative = negative dup, coefficient = c, exponent = e\<rparr>))"

text \<open>
  \<^verbatim>\<open>Decimal.__str__\<close>, the scientific string of the decimal arithmetic
  specification: plain notation when the exponent is at most 0 and the number is
  not too small, otherwise one digit before the point and an exponent.
\<close>

definition Decimal_str :: "decimal \<Rightarrow> string" where
  "Decimal_str d =
     (let sgn = (if negative d then ''-'' else '''');
          ds = to_base 10 (coefficient d);
          leftdigits = exponent d + int (length ds);
          dotplace = (if exponent d \<le> 0 \<and> - 6 < leftdigits then leftdigits else 1);
          intpart = (if dotplace \<le> 0 then ''0''
                     else if int (length ds) \<le> dotplace
                       then ds @ replicate (nat (dotplace - int (length ds))) CHR ''0''
                     else take (nat dotplace) ds);
          fracpart = (if dotplace \<le> 0 then ''.'' @ replicate (nat (- dotplace)) CHR ''0'' @ ds
                      else if int (length ds) \<le> dotplace then ''''
                      else ''.'' @ drop (nat dotplace) ds);
          ex = (if leftdigits = dotplace then ''''
                else ''E'' @ (if 0 \<le> leftdigits - dotplace then ''+'' else '''')
                       @ str_int (leftdigits - dotplace))
      in sgn @ intpart @ fracpart @ ex)"

subsection \<open>Formatting numbers\<close>

text \<open>
  What the formatters hand to \<^verbatim>\<open>_add_content\<close>, which tests it for truth and
  prints it with an f-string: a string, an integer, a bool, or the \<^verbatim>\<open>Decimal\<close>
  that \<^verbatim>\<open>_format_float\<close> returns for a finite float.
\<close>

datatype content =
    ContentStr string
  | ContentInt int
  | ContentBool bool
  | ContentDecimal decimal

definition content_truth :: "content \<Rightarrow> bool" where
  "content_truth c =
     (case c of
        ContentStr s \<Rightarrow> s \<noteq> []
      | ContentInt i \<Rightarrow> i \<noteq> 0
      | ContentBool b \<Rightarrow> b
      | ContentDecimal d \<Rightarrow> coefficient d \<noteq> 0)"

definition content_str :: "content \<Rightarrow> string" where
  "content_str c =
     (case c of
        ContentStr s \<Rightarrow> s
      | ContentInt i \<Rightarrow> str_int i
      | ContentBool b \<Rightarrow> str_bool b
      | ContentDecimal d \<Rightarrow> Decimal_str d)"

text \<open>\<^verbatim>\<open>_XMLWriter._format_float\<close>.\<close>

definition format_float :: "pyfloat \<Rightarrow> error + content" where
  "format_float v =
     (case v of
        PosInf \<Rightarrow> Inr (ContentStr ''INF'')
      | NegInf \<Rightarrow> Inr (ContentStr ''-INF'')
      | NaN \<Rightarrow> Inr (ContentStr ''NaN'')
      | Finite tmp \<Rightarrow>
          if Decimal_eq tmp (to_integral tmp)
          then (case quantize1 tmp of Inl e \<Rightarrow> Inl e | Inr q \<Rightarrow> Inr (ContentDecimal q))
          else Inr (ContentDecimal (normalize_decimal tmp)))"

text \<open>
  \<^verbatim>\<open>NumericalValue\<close>: a number and a format tag. The constructor turns a string
  into a number with \<^verbatim>\<open>int(value, 0)\<close> or, failing that, \<^verbatim>\<open>float(value)\<close>;
  \<open>parse_number\<close> stands for the two built-ins and gives \<open>None\<close> when both refuse
  the string. A string that starts with \<^verbatim>\<open>0x\<close> or \<^verbatim>\<open>0b\<close> sets the tag, whatever
  the caller passed.
\<close>

record NumericalValue =
  nv_value :: pyval
  value_format :: ValueFormat

definition starts_with :: "string \<Rightarrow> string \<Rightarrow> bool" where
  "starts_with s p = (take (length p) s = p)"

definition NumericalValue_init ::
  "(string \<Rightarrow> pyval option) \<Rightarrow> pyval \<Rightarrow> ValueFormat \<Rightarrow> error + NumericalValue" where
  "NumericalValue_init parse_number v fmt =
     (case v of
        PyInt i \<Rightarrow> Inr \<lparr>nv_value = v, value_format = fmt\<rparr>
      | PyBool b \<Rightarrow> Inr \<lparr>nv_value = v, value_format = fmt\<rparr>
      | PyFloat f \<Rightarrow> Inr \<lparr>nv_value = v, value_format = fmt\<rparr>
      | PyStr s \<Rightarrow>
          (case parse_number s of
             None \<Rightarrow> Inl ValueError
           | Some n \<Rightarrow>
               Inr \<lparr>nv_value = n,
                    value_format = (if starts_with s ''0x'' then HEXADECIMAL
                                    else if starts_with s ''0b'' then BINARY
                                    else fmt)\<rparr>)
      | _ \<Rightarrow> Inl TypeError)"

text \<open>
  The argument of \<^verbatim>\<open>_format_number\<close>: a plain Python value or a
  \<^verbatim>\<open>NumericalValue\<close>.
\<close>

datatype number_arg = Plain pyval | Wrapped NumericalValue

text \<open>
  \<^verbatim>\<open>_format_number\<close> on a plain value: \<^verbatim>\<open>str\<close> for an integer (a bool is one),
  the float formatter for a float, \<open>TypeError\<close> otherwise.
\<close>

definition format_plain_number :: "pyval \<Rightarrow> error + content" where
  "format_plain_number v =
     (case v of
        PyInt i \<Rightarrow> Inr (ContentStr (str_int i))
      | PyBool b \<Rightarrow> Inr (ContentStr (str_bool b))
      | PyFloat f \<Rightarrow> format_float f
      | _ \<Rightarrow> Inl TypeError)"

text \<open>
  The format codes \<^verbatim>\<open>x\<close>, \<^verbatim>\<open>b\<close> and \<^verbatim>\<open>e\<close> of an f-string. The first two exist
  for integers only; a bool prints as 0 or 1; on a float or a string they raise
  \<open>ValueError\<close>. Code \<^verbatim>\<open>e\<close> prints a float; \<open>float_e\<close> stands for that built-in
  on floats, an integer is converted first.
\<close>

definition int_of_bool :: "bool \<Rightarrow> int" where
  "int_of_bool b = (if b then 1 else 0)"

definition format_code_x :: "pyval \<Rightarrow> error + string" where
  "format_code_x v =
     (case v of
        PyInt i \<Rightarrow> Inr (format_x i)
      | PyBool b \<Rightarrow> Inr (format_x (int_of_bool b))
      | PyFloat f \<Rightarrow> Inl ValueError
      | PyStr s \<Rightarrow> Inl ValueError
      | _ \<Rightarrow> Inl TypeError)"

definition format_code_b :: "pyval \<Rightarrow> error + string" where
  "format_code_b v =
     (case v of
        PyInt i \<Rightarrow> Inr (format_b i)
      | PyBool b \<Rightarrow> Inr (format_b (int_of_bool b))
      | PyFloat f \<Rightarrow> Inl ValueError
      | PyStr s \<Rightarrow> Inl ValueError
      | _ \<Rightarrow> Inl TypeError)"

definition format_code_e :: "(pyfloat \<Rightarrow> string) \<Rightarrow> pyval \<Rightarrow> error + string" where
  "format_code_e float_e v =
     (case v of
        PyInt i \<Rightarrow> format_e_int i
      | PyBool b \<Rightarrow> format_e_int (int_of_bool b)
      | PyFloat f \<Rightarrow> Inr (float_e f)
      | PyStr s \<Rightarrow> Inl ValueError
      | _ \<Rightarrow> Inl TypeError)"

text \<open>\<^verbatim>\<open>_XMLWriter._format_numerical_value\<close>.\<close>

definition format_numerical_value :: "(pyfloat \<Rightarrow> string) \<Rightarrow> NumericalValue \<Rightarrow> error + content" where
  "format_numerical_value float_e number =
     (if value_format number = DEFAULT \<or> value_format number = DECIMAL
        then format_plain_number (nv_value number)
      else if value_format number = HEXADECIMAL
        then (case format_code_x (nv_value number) of
                Inl e \<Rightarrow> Inl e
              | Inr s \<Rightarrow> Inr (ContentStr (''0x'' @ s)))
      else if value_format number = BINARY
        then (case format_code_b (nv_value number) of
                Inl e \<Rightarrow> Inl e
              | Inr s \<Rightarrow> Inr (ContentStr (''0b'' @ s)))
      else if value_format number = SCIENTIFIC
        then (case format_code_e float_e (nv_value number) of
                Inl e \<Rightarrow> Inl e
              | Inr s \<Rightarrow> Inr (ContentStr s))
      else Inl NotImplementedError)"

text \<open>\<^verbatim>\<open>_XMLWriter._format_number\<close>.\<close>

definition format_number :: "(pyfloat \<Rightarrow> string) \<Rightarrow> number_arg \<Rightarrow> error + content" where
  "format_number float_e number =
     (case number of
        Plain v \<Rightarrow> format_plain_number v
      | Wrapped n \<Rightarrow> format_numerical_value float_e n)"

subsection \<open>The XML writer\<close>

text \<open>
  The output stream, a \<^verbatim>\<open>StringIO\<close> or a file opened for writing: the text
  written so far and whether it has been closed.
\<close>

record stream =
  written :: string
  closed :: bool

text \<open>The attributes of \<^verbatim>\<open>_XMLWriter\<close>; \<^verbatim>\<open>fh\<close> is \<^verbatim>\<open>None\<close> until a stream is opened.\<close>

record writer =
  file_path :: "string option"
  fh :: "stream option"
  indentation_char :: string
  indentation_step :: int
  indentation_level :: int
  indentation_str :: string
  tag_stack :: "string list"
  line_number :: int

text \<open>\<^verbatim>\<open>Writer()\<close>: \<^verbatim>\<open>_XMLWriter.__init__(indentation_step=2)\<close>.\<close>

definition Writer_init :: writer where
  "Writer_init =
     \<lparr>file_path = None, fh = None, indentation_char = '' '', indentation_step = 2,
      indentation_level = 0, indentation_str = '''', tag_stack = [], line_number = 0\<rparr>"

text \<open>
  A method of the writer: it returns the exception it raised, if any, and the
  writer as it is at that moment.
\<close>

type_synonym step = "writer \<Rightarrow> error option \<times> writer"

text \<open>Statements one after the other; the first exception ends the sequence.\<close>

fun run :: "step list \<Rightarrow> step" where
  "run [] w = (None, w)"
| "run (f # fs) w = (case f w of (None, w') \<Rightarrow> run fs w' | (Some e, w') \<Rightarrow> (Some e, w'))"

definition raise :: "error \<Rightarrow> step" where
  "raise e w = (Some e, w)"

definition skip :: step where
  "skip w = (None, w)"

text \<open>\<^verbatim>\<open>s * n\<close> for a string and an integer: empty when \<open>n\<close> is not positive.\<close>

definition str_mul :: "string \<Rightarrow> int \<Rightarrow> string" where
  "str_mul s n = concat (replicate (nat n) s)"

text \<open>
  \<^verbatim>\<open>self.fh.write(text)\<close>: \<open>AttributeError\<close> on \<^verbatim>\<open>None\<close>, \<open>ValueError\<close> on a
  closed stream.
\<close>

definition fh_write :: "string \<Rightarrow> step" where
  "fh_write text w =
     (case fh w of
        None \<Rightarrow> (Some AttributeError, w)
      | Some f \<Rightarrow>
          if closed f then (Some ValueError, w)
          else (None, w\<lparr>fh := Some (f\<lparr>written := written f @ text\<rparr>)\<rparr>))"

text \<open>\<^verbatim>\<open>self.fh.getvalue()\<close> at the end of \<^verbatim>\<open>write_str\<close> and \<^verbatim>\<open>write_str_elem\<close>.\<close>

definition getvalue :: "writer \<Rightarrow> string" where
  "getvalue w = (case fh w of None \<Rightarrow> [] | Some f \<Rightarrow> written f)"

text \<open>\<^verbatim>\<open>_str_open\<close>: a fresh \<^verbatim>\<open>StringIO\<close>, and the writer state reset.\<close>

definition str_open :: step where
  "str_open w =
     (None, w\<lparr>fh := Some \<lparr>written = [], closed = False\<rparr>, line_number := 1,
               indentation_level := 0, indentation_str := [], tag_stack := []\<rparr>)"

text \<open>
  \<^verbatim>\<open>_open(file_path)\<close>: the built-in \<^verbatim>\<open>open\<close> raises \<open>OSError\<close> for a path
  that cannot be written (\<open>writable\<close> says which can) and otherwise gives a fresh
  open stream.
\<close>

definition open_file :: "(string \<Rightarrow> bool) \<Rightarrow> string \<Rightarrow> step" where
  "open_file writable path w =
     (if writable path
      then (None, w\<lparr>fh := Some \<lparr>written = [], closed = False\<rparr>, file_path := Some path,
                     line_number := 1, indentation_level := 0, indentation_str := [],
                     tag_stack := []\<rparr>)
      else (Some OSError, w))"

text \<open>\<^verbatim>\<open>_close\<close>.\<close>

definition close :: step where
  "close w =
     (case fh w of
        None \<Rightarrow> (Some AttributeError, w)
      | Some f \<Rightarrow> (None, w\<lparr>fh := Some (f\<lparr>closed := True\<rparr>)\<rparr>))"

text \<open>\<^verbatim>\<open>_indent\<close> and \<^verbatim>\<open>_dedent\<close>.\<close>

definition indent :: step where
  "indent w =
     (let l = indentation_level w + 1
      in (None, w\<lparr>indentation_level := l,
                   indentation_str := str_mul (indentation_char w) (l * indentation_step w)\<rparr>))"

definition dedent :: step where
  "dedent w =
     (let l = indentation_level w - 1
      in (None, w\<lparr>indentation_level := l,
                   indentation_str :=
                     (if l = 0 then [] else str_mul (indentation_char w) (l * indentation_step w))\<rparr>))"

text \<open>
  The start of a new line, shared by \<^verbatim>\<open>_add_line\<close> and \<^verbatim>\<open>_begin_line\<close>: a line
  break unless this is the first line, the line count, the indentation.
\<close>

definition new_line :: step where
  "new_line =
     run [\<lambda>w. if 1 < line_number w then fh_write [CHR 0x0A] w else (None, w),
          \<lambda>w. (None, w\<lparr>line_number := line_number w + 1\<rparr>),
          \<lambda>w. fh_write (indentation_str w) w]"

text \<open>\<^verbatim>\<open>_add_line\<close> and \<^verbatim>\<open>_add_inline_text\<close>.\<close>

definition add_line :: "string \<Rightarrow> step" where
  "add_line text = run [new_line, fh_write text]"

definition add_inline_text :: "string \<Rightarrow> step" where
  "add_inline_text text = fh_write text"

text \<open>\<^verbatim>\<open>_attr_to_str\<close>: the pairs as \<^verbatim>\<open>NAME="value"\<close>, joined by spaces.\<close>

definition attr_to_str :: "(string \<times> string) list \<Rightarrow> string" where
  "attr_to_str attr = join '' '' (map (\<lambda>(k, v). k @ ''=\"'' @ v @ ''\"'') attr)"

text \<open>
  The opening tag with its attributes; an empty attribute list counts as none, as
  does \<^verbatim>\<open>None\<close>, for which the empty list stands as well.
\<close>

definition open_tag :: "string \<Rightarrow> (string \<times> string) list \<Rightarrow> string" where
  "open_tag tag attr =
     (if attr \<noteq> [] then ''<'' @ tag @ '' '' @ attr_to_str attr @ ''>'' else ''<'' @ tag @ ''>'')"

text \<open>\<^verbatim>\<open>_add_child\<close> and \<^verbatim>\<open>_leave_child\<close>; popping an empty stack raises \<open>IndexError\<close>.\<close>

definition add_child :: "string \<Rightarrow> (string \<times> string) list \<Rightarrow> step" where
  "add_child tag attr =
     run [add_line (open_tag tag attr),
          \<lambda>w. (None, w\<lparr>tag_stack := tag_stack w @ [tag]\<rparr>),
          indent]"

definition leave_child :: step where
  "leave_child w =
     (if tag_stack w = [] then (Some IndexError, w)
      else
        (let tag = last (tag_stack w)
         in run [\<lambda>w. (None, w\<lparr>tag_stack := butlast (tag_stack w)\<rparr>),
                 dedent,
                 add_line (''</'' @ tag @ ''>'')] w))"

text \<open>\<^verbatim>\<open>_begin_line\<close> and \<^verbatim>\<open>_end_line\<close>.\<close>

definition begin_line :: "string \<Rightarrow> (string \<times> string) list \<Rightarrow> step" where
  "begin_line tag attr = run [new_line, add_inline_text (open_tag tag attr)]"

definition end_line :: "string \<Rightarrow> step" where
  "end_line tag = fh_write (''</'' @ tag @ ''>'')"

text \<open>
  \<^verbatim>\<open>_add_content(tag, content, attr, inline)\<close>: a pair of tags around the content,
  or one self-closing tag when the content is false (an empty string, but also the
  number zero).
\<close>

definition add_content :: "string \<Rightarrow> content \<Rightarrow> (string \<times> string) list \<Rightarrow> bool \<Rightarrow> step" where
  "add_content tag c attr inline =
     (let text =
            (if attr \<noteq> [] then
               (if content_truth c
                then ''<'' @ tag @ '' '' @ attr_to_str attr @ ''>'' @ content_str c @ ''</'' @ tag @ ''>''
                else ''<'' @ tag @ '' '' @ attr_to_str attr @ ''/>'')
             else
               (if content_truth c
                then ''<'' @ tag @ ''>'' @ content_str c @ ''</'' @ tag @ ''>''
                else ''<'' @ tag @ ''/>''))
      in if inline then add_inline_text text else add_line text)"

subsection \<open>Emptiness\<close>

text \<open>
  \<^verbatim>\<open>ARObject.is_empty\<close> looks at every attribute value of the object: a list must
  be empty, anything else must be \<^verbatim>\<open>None\<close>. For that test an attribute value is
  \<^verbatim>\<open>None\<close>, a list of some length, or something else.
\<close>

datatype attr_value = IsNone | IsList nat | IsOther

definition is_empty_vars :: "attr_value list \<Rightarrow> bool" where
  "is_empty_vars vs = list_all (\<lambda>v. case v of IsNone \<Rightarrow> True | IsList n \<Rightarrow> n = 0 | IsOther \<Rightarrow> False) vs"

definition opt_attr :: "'a option \<Rightarrow> attr_value" where
  "opt_attr x = (case x of None \<Rightarrow> IsNone | Some _ \<Rightarrow> IsOther)"

definition pyval_attr :: "pyval \<Rightarrow> attr_value" where
  "pyval_attr v = (case v of PyNone \<Rightarrow> IsNone | PyList xs \<Rightarrow> IsList (length xs) | _ \<Rightarrow> IsOther)"

subsection \<open>Documentation elements\<close>

text \<open>
  The inline elements of a paragraph and the overview paragraph itself. The type
  \<open>'e\<close> holds the members of the enumerations of \<^verbatim>\<open>ar_enum\<close> (languages, fonts,
  interval types, ...), which is not among the sources; the writer turns a member
  into its XML token with \<^verbatim>\<open>ar_enum.enum_to_xml\<close>, a parameter \<open>enum_to_xml\<close> of the
  functions below. The selectors carry the attribute names of the classes behind
  a prefix.
\<close>

datatype 'e EmphasisText =
  EmphasisText (et_elements: "string list") (et_color: "string option")
    (et_font: "'e option") (et_type: "'e option")

datatype TechnicalTerm =
  TechnicalTerm (tt_text: string) (tt_tex_render: "string option") (tt_type: "string option")

datatype 'e part =
    PartStr string
  | PartBreak
  | PartEmphasisText "'e EmphasisText"
  | PartIndexEntry string
  | PartSubscript string
  | PartSuperscript string
  | PartTechnicalTerm TechnicalTerm
  | PartOther

datatype 'e LanguageOverviewParagraph =
  LanguageOverviewParagraph (lop_language: 'e) (lop_parts: "'e part list")

datatype 'e MultiLanguageOverviewParagraph =
  MultiLanguageOverviewParagraph (mlop_elements: "'e LanguageOverviewParagraph list")

text \<open>\<^verbatim>\<open>_write_break\<close>, \<^verbatim>\<open>_write_index_entry\<close>, \<^verbatim>\<open>_write_superscript\<close>, \<^verbatim>\<open>_write_subscript\<close>.\<close>

definition write_break :: "bool \<Rightarrow> step" where
  "write_break inline = add_content ''BR'' (ContentStr []) [] inline"

definition write_index_entry :: "string \<Rightarrow> bool \<Rightarrow> step" where
  "write_index_entry text inline = add_content ''IE'' (ContentStr text) [] inline"

definition write_superscript :: "string \<Rightarrow> bool \<Rightarrow> step" where
  "write_superscript text inline = add_content ''SUP'' (ContentStr text) [] inline"

definition write_subscript :: "string \<Rightarrow> bool \<Rightarrow> step" where
  "write_subscript text inline = add_content ''SUB'' (ContentStr text) [] inline"

text \<open>\<^verbatim>\<open>_collect_emphasis_text_attributes\<close> and \<^verbatim>\<open>_write_emphasis_text\<close>.\<close>

definition collect_emphasis_text_attributes ::
  "('e \<Rightarrow> string) \<Rightarrow> 'e EmphasisText \<Rightarrow> (string \<times> string) list" where
  "collect_emphasis_text_attributes enum_to_xml elem =
     (case et_color elem of None \<Rightarrow> [] | Some c \<Rightarrow> [(''COLOR'', c)])
     @ (case et_font elem of None \<Rightarrow> [] | Some f \<Rightarrow> [(''FONT'', enum_to_xml f)])
     @ (case et_type elem of None \<Rightarrow> [] | Some t \<Rightarrow> [(''TYPE'', enum_to_xml t)])"

definition write_emphasis_text :: "('e \<Rightarrow> string) \<Rightarrow> 'e EmphasisText \<Rightarrow> bool \<Rightarrow> step" where
  "write_emphasis_text enum_to_xml elem inline =
     (case et_elements elem of
        [text] \<Rightarrow>
          add_content ''E'' (ContentStr text) (collect_emphasis_text_attributes enum_to_xml elem) inline
      | _ \<Rightarrow> raise NotImplementedError)"

text \<open>\<^verbatim>\<open>_collect_technical_term_attributes\<close> and \<^verbatim>\<open>_write_technical_term\<close>.\<close>

definition collect_technical_term_attributes :: "TechnicalTerm \<Rightarrow> (string \<times> string) list" where
  "collect_technical_term_attributes elem =
     (case tt_tex_render elem of None \<Rightarrow> [] | Some r \<Rightarrow> [(''TEX-RENDER'', r)])
     @ (case tt_type elem of None \<Rightarrow> [] | Some t \<Rightarrow> [(''TYPE'', t)])"

definition write_technical_term :: "TechnicalTerm \<Rightarrow> bool \<Rightarrow> step" where
  "write_technical_term elem inline =
     add_content ''TT'' (ContentStr (tt_text elem)) (collect_technical_term_attributes elem) inline"

text \<open>
  \<^verbatim>\<open>_write_language_overview_paragraph\<close>: the tag \<^verbatim>\<open>L-2\<close> with the language as
  attribute, and the parts inline on the same line.
\<close>

definition write_overview_part :: "('e \<Rightarrow> string) \<Rightarrow> 'e part \<Rightarrow> step" where
  "write_overview_part enum_to_xml p =
     (case p of
        PartStr s \<Rightarrow> add_inline_text s
      | PartBreak \<Rightarrow> write_break True
      | PartEmphasisText e \<Rightarrow> write_emphasis_text enum_to_xml e True
      | PartIndexEntry t \<Rightarrow> write_index_entry t True
      | PartSubscript t \<Rightarrow> write_subscript t True
      | PartSuperscript t \<Rightarrow> write_superscript t True
      | PartTechnicalTerm t \<Rightarrow> write_technical_term t True
      | PartOther \<Rightarrow> raise TypeError)"

definition write_language_overview_paragraph ::
  "('e \<Rightarrow> string) \<Rightarrow> 'e LanguageOverviewParagraph \<Rightarrow> step" where
  "write_language_overview_paragraph enum_to_xml elem =
     run ([begin_line ''L-2'' [(''L'', enum_to_xml (lop_language elem))]]
          @ map (write_overview_part enum_to_xml) (lop_parts elem)
          @ [end_line ''L-2''])"

text \<open>\<^verbatim>\<open>_write_multi_language_overview_paragraph\<close>.\<close>

definition write_multi_language_overview_paragraph ::
  "('e \<Rightarrow> string) \<Rightarrow> 'e MultiLanguageOverviewParagraph \<Rightarrow> string \<Rightarrow> step" where
  "write_multi_language_overview_paragraph enum_to_xml elem tag =
     (if tag \<notin> {''DESC'', ''ITEM-LABEL'', ''CHANGE'', ''REASON''} then raise ValueError
      else run ([add_child tag []]
                @ map (write_language_overview_paragraph enum_to_xml) (mlop_elements elem)
                @ [leave_child]))"

subsection \<open>Computation methods\<close>

text \<open>
  \<^verbatim>\<open>CompuRational\<close>: numerator and denominator, each \<^verbatim>\<open>None\<close> or the tuple
  of numbers the constructor made of its argument; the writer also accepts a single
  number.
\<close>

datatype number = IntNumber int | FloatNumber pyfloat

datatype coefficients = CoeffTuple "number list" | CoeffScalar number

datatype CompuRational =
  CompuRational (numerator: "coefficients option") (denominator: "coefficients option")

text \<open>\<^verbatim>\<open>CompuConst\<close>: one attribute, \<^verbatim>\<open>value\<close>, stored unchecked.\<close>

datatype CompuConst = CompuConst (const_value: pyval)

text \<open>
  \<^verbatim>\<open>CompuScale\<close>. The content is a constant, a rational function or \<^verbatim>\<open>None\<close>;
  the limits are integers, floats, strings or \<^verbatim>\<open>None\<close>.
\<close>

datatype scale_content = ScaleConst CompuConst | ScaleRational CompuRational

record 'e CompuScale =
  cs_content :: "scale_content option"
  cs_lower_limit :: pyval
  cs_upper_limit :: pyval
  cs_label :: "string option"
  cs_symbol :: "string option"
  cs_desc :: "'e MultiLanguageOverviewParagraph option"
  cs_mask :: "int option"
  cs_inverse_value :: "CompuConst option"
  cs_lower_limit_type :: "'e option"
  cs_upper_limit_type :: "'e option"

text \<open>\<^verbatim>\<open>Computation\<close>: a list of scales or \<^verbatim>\<open>None\<close>, and a default value or \<^verbatim>\<open>None\<close>.\<close>

record 'e Computation =
  compu_scales :: "'e CompuScale list option"
  default_value :: "CompuConst option"

text \<open>\<^verbatim>\<open>is_empty\<close> on the three classes, over the attributes their constructors set.\<close>

definition CompuRational_is_empty :: "CompuRational \<Rightarrow> bool" where
  "CompuRational_is_empty elem = is_empty_vars [opt_attr (numerator elem), opt_attr (denominator elem)]"

definition CompuScale_is_empty :: "'e CompuScale \<Rightarrow> bool" where
  "CompuScale_is_empty elem =
     is_empty_vars
       [opt_attr (cs_content elem), pyval_attr (cs_lower_limit elem), pyval_attr (cs_upper_limit elem),
        opt_attr (cs_label elem), opt_attr (cs_symbol elem), opt_attr (cs_desc elem),
        opt_attr (cs_mask elem), opt_attr (cs_inverse_value elem),
        opt_attr (cs_lower_limit_type elem), opt_attr (cs_upper_limit_type elem)]"

definition Computation_is_empty :: "'e Computation \<Rightarrow> bool" where
  "Computation_is_empty elem =
     is_empty_vars
       [(case compu_scales elem of None \<Rightarrow> IsNone | Some xs \<Rightarrow> IsList (length xs)),
        opt_attr (default_value elem)]"

text \<open>A formatter's result written as content, its exception raised.\<close>

definition add_formatted :: "string \<Rightarrow> error + content \<Rightarrow> (string \<times> string) list \<Rightarrow> step" where
  "add_formatted tag r attr = (case r of Inl e \<Rightarrow> raise e | Inr c \<Rightarrow> add_content tag c attr False)"

text \<open>\<^verbatim>\<open>_write_limit\<close>.\<close>

definition write_limit :: "('e \<Rightarrow> string) \<Rightarrow> string \<Rightarrow> pyval \<Rightarrow> 'e option \<Rightarrow> step" where
  "write_limit enum_to_xml tag limit limit_type =
     (if limit = PyNone then raise AssertionError
      else case limit_type of
             None \<Rightarrow> raise AssertionError
           | Some lt \<Rightarrow>
               (let attr = [(''INTERVAL-TYPE'', enum_to_xml lt)]
                in case limit of
                     PyFloat f \<Rightarrow> add_formatted tag (format_float f) attr
                   | PyInt i \<Rightarrow> add_content tag (ContentStr (str_int i)) attr False
                   | PyBool b \<Rightarrow> add_content tag (ContentStr (str_bool b)) attr False
                   | _ \<Rightarrow> raise TypeError))"

text \<open>\<^verbatim>\<open>_write_compu_const\<close>.\<close>

definition write_compu_const :: "CompuConst \<Rightarrow> string \<Rightarrow> step" where
  "write_compu_const elem tag =
     run [add_child tag [],
          (case const_value elem of
             PyStr s \<Rightarrow> add_content ''VT'' (ContentStr s) [] False
           | PyFloat f \<Rightarrow> add_formatted ''V'' (format_float f) []
           | PyInt i \<Rightarrow> add_content ''V'' (ContentInt i) [] False
           | PyBool b \<Rightarrow> add_content ''V'' (ContentBool b) [] False
           | _ \<Rightarrow> raise TypeError),
          leave_child]"

text \<open>\<^verbatim>\<open>_write_numerator_denominator_values\<close> and \<^verbatim>\<open>_write_compu_rational\<close>.\<close>

definition write_coefficient :: "number \<Rightarrow> step" where
  "write_coefficient n =
     (case n of
        FloatNumber f \<Rightarrow> add_formatted ''V'' (format_float f) []
      | IntNumber i \<Rightarrow> add_content ''V'' (ContentStr (str_int i)) [] False)"

definition write_numerator_denominator_values :: "coefficients \<Rightarrow> step" where
  "write_numerator_denominator_values v =
     (case v of
        CoeffTuple ns \<Rightarrow> run (map write_coefficient ns)
      | CoeffScalar n \<Rightarrow> write_coefficient n)"

definition write_compu_rational :: "CompuRational \<Rightarrow> step" where
  "write_compu_rational elem =
     (if CompuRational_is_empty elem then add_content ''COMPU-RATIONAL-COEFFS'' (ContentStr []) [] False
      else
        run [add_child ''COMPU-RATIONAL-COEFFS'' [],
             (case numerator elem of
                None \<Rightarrow> skip
              | Some n \<Rightarrow>
                  run [add_child ''COMPU-NUMERATOR'' [], write_numerator_denominator_values n,
                       leave_child]),
             (case denominator elem of
                None \<Rightarrow> skip
              | Some d \<Rightarrow>
                  run [add_child ''COMPU-DENOMINATOR'' [], write_numerator_denominator_values d,
                       leave_child]),
             leave_child])"

text \<open>\<^verbatim>\<open>_write_compu_scale\<close>.\<close>

definition write_compu_scale :: "('e \<Rightarrow> string) \<Rightarrow> 'e CompuScale \<Rightarrow> step" where
  "write_compu_scale enum_to_xml elem =
     (if CompuScale_is_empty elem then add_content ''COMPU-SCALE'' (ContentStr []) [] False
      else
        run [add_child ''COMPU-SCALE'' [],
             (case cs_label elem of
                None \<Rightarrow> skip
              | Some l \<Rightarrow> add_content ''SHORT-LABEL'' (ContentStr l) [] False),
             (case cs_symbol elem of
                None \<Rightarrow> skip
              | Some sy \<Rightarrow> add_content ''SYMBOL'' (ContentStr sy) [] False),
             (case cs_desc elem of
                None \<Rightarrow> skip
              | Some d \<Rightarrow> write_multi_language_overview_paragraph enum_to_xml d ''DESC''),
             (case cs_mask elem of
                None \<Rightarrow> skip
              | Some m \<Rightarrow> add_content ''MASK'' (ContentInt m) [] False),
             (if cs_lower_limit elem = PyNone then skip
              else write_limit enum_to_xml ''LOWER-LIMIT'' (cs_lower_limit elem) (cs_lower_limit_type elem)),
             (if cs_upper_limit elem = PyNone then skip
              else write_limit enum_to_xml ''UPPER-LIMIT'' (cs_upper_limit elem) (cs_upper_limit_type elem)),
             (case cs_inverse_value elem of
                None \<Rightarrow> skip
              | Some iv \<Rightarrow> write_compu_const iv ''COMPU-INVERSE-VALUE''),
             (case cs_content elem of
                None \<Rightarrow> skip
              | Some (ScaleConst c) \<Rightarrow> write_compu_const c ''COMPU-CONST''
              | Some (ScaleRational r) \<Rightarrow> write_compu_rational r),
             leave_child])"

text \<open>\<^verbatim>\<open>_write_computation\<close>.\<close>

definition write_computation :: "('e \<Rightarrow> string) \<Rightarrow> 'e Computation \<Rightarrow> string \<Rightarrow> step" where
  "write_computation enum_to_xml elem tag =
     run [add_child tag [],
          (case compu_scales elem of
             None \<Rightarrow> skip
           | Some scales \<Rightarrow>
               run ([add_child ''COMPU-SCALES'' []]
                    @ map (write_compu_scale enum_to_xml) scales
                    @ [leave_child])),
          (case default_value elem of
             None \<Rightarrow> skip
           | Some dv \<Rightarrow> write_compu_const dv ''COMPU-DEFAULT-VALUE''),
          leave_child]"

subsection \<open>Dispatch on the class of an object\<close>

text \<open>
  The objects that can be handed to a single-element entry point of the writer:
  those of the classes modelled above, and \<open>OtherObject c\<close> for an object of any
  other class, of which only the class name \<open>c\<close> is kept.
\<close>

datatype 'e ar_object =
    ComputationObject "'e Computation"
  | CompuScaleObject "'e CompuScale"
  | CompuRationalObject CompuRational
  | CompuConstObject CompuConst
  | MultiLanguageOverviewParagraphObject "'e MultiLanguageOverviewParagraph"
  | BreakObject
  | EmphasisTextObject "'e EmphasisText"
  | IndexEntryObject string
  | SuperscriptObject string
  | SubscriptObject string
  | TechnicalTermObject TechnicalTerm
  | OtherObject string

text \<open>\<^verbatim>\<open>elem.__class__.__name__\<close>.\<close>

definition class_name :: "'e ar_object \<Rightarrow> string" where
  "class_name elem =
     (case elem of
        ComputationObject _ \<Rightarrow> ''Computation''
      | CompuScaleObject _ \<Rightarrow> ''CompuScale''
      | CompuRationalObject _ \<Rightarrow> ''CompuRational''
      | CompuConstObject _ \<Rightarrow> ''CompuConst''
      | MultiLanguageOverviewParagraphObject _ \<Rightarrow> ''MultiLanguageOverviewParagraph''
      | BreakObject \<Rightarrow> ''Break''
      | EmphasisTextObject _ \<Rightarrow> ''EmphasisText''
      | IndexEntryObject _ \<Rightarrow> ''IndexEntry''
      | SuperscriptObject _ \<Rightarrow> ''Superscript''
      | SubscriptObject _ \<Rightarrow> ''Subscript''
      | TechnicalTermObject _ \<Rightarrow> ''TechnicalTerm''
      | OtherObject c \<Rightarrow> c)"

text \<open>
  A bound writer method as a table holds it: called with the element alone
  (\<open>None\<close>) or with the element and a second positional argument. A call that does
  not fit the signature of the method raises \<open>TypeError\<close>. A method of two
  parameters \<^verbatim>\<open>(elem, inline=True)\<close> takes a second argument as \<^verbatim>\<open>inline\<close>, which
  is then a non-empty string or an empty one. An object of the wrong class fails the
  \<^verbatim>\<open>assert isinstance\<close> the method starts with; \<^verbatim>\<open>_write_computation\<close> has no
  such assertion and fails at the first attribute it reads. (The tables are keyed by
  class name, so a method only ever meets objects of its class.)
\<close>

type_synonym 'e write_method = "'e ar_object \<Rightarrow> string option \<Rightarrow> step"

definition inline_arg :: "string option \<Rightarrow> bool" where
  "inline_arg a = (case a of None \<Rightarrow> True | Some s \<Rightarrow> s \<noteq> [])"

definition method_write_computation :: "('e \<Rightarrow> string) \<Rightarrow> 'e write_method" where
  "method_write_computation enum_to_xml elem arg =
     (case arg of
        None \<Rightarrow> raise TypeError
      | Some tag \<Rightarrow>
          (case elem of
             ComputationObject c \<Rightarrow> write_computation enum_to_xml c tag
           | _ \<Rightarrow> run [add_child tag [], raise AttributeError]))"

definition method_write_compu_scale :: "('e \<Rightarrow> string) \<Rightarrow> 'e write_method" where
  "method_write_compu_scale enum_to_xml elem arg =
     (case arg of
        Some _ \<Rightarrow> raise TypeError
      | None \<Rightarrow>
          (case elem of
             CompuScaleObject c \<Rightarrow> write_compu_scale enum_to_xml c
           | _ \<Rightarrow> raise AssertionError))"

definition method_write_compu_rational :: "'e write_method" where
  "method_write_compu_rational elem arg =
     (case arg of
        Some _ \<Rightarrow> raise TypeError
      | None \<Rightarrow>
          (case elem of
             CompuRationalObject c \<Rightarrow> write_compu_rational c
           | _ \<Rightarrow> raise AssertionError))"

definition method_write_multi_language_overview_paragraph :: "('e \<Rightarrow> string) \<Rightarrow> 'e write_method" where
  "method_write_multi_language_overview_paragraph enum_to_xml elem arg =
     (case arg of
        None \<Rightarrow> raise TypeError
      | Some tag \<Rightarrow>
          (case elem of
             MultiLanguageOverviewParagraphObject p \<Rightarrow>
               write_multi_language_overview_paragraph enum_to_xml p tag
           | _ \<Rightarrow> raise AssertionError))"

definition method_write_break :: "'e write_method" where
  "method_write_break elem arg =
     (case elem of BreakObject \<Rightarrow> write_break (inline_arg arg) | _ \<Rightarrow> raise AssertionError)"

definition method_write_emphasis_text :: "('e \<Rightarrow> string) \<Rightarrow> 'e write_method" where
  "method_write_emphasis_text enum_to_xml elem arg =
     (case elem of
        EmphasisTextObject e \<Rightarrow> write_emphasis_text enum_to_xml e (inline_arg arg)
      | _ \<Rightarrow> raise AssertionError)"

definition method_write_index_entry :: "'e write_method" where
  "method_write_index_entry elem arg =
     (case elem of
        IndexEntryObject t \<Rightarrow> write_index_entry t (inline_arg arg)
      | _ \<Rightarrow> raise AssertionError)"

definition method_write_superscript :: "'e write_method" where
  "method_write_superscript elem arg =
     (case elem of
        SuperscriptObject t \<Rightarrow> write_superscript t (inline_arg arg)
      | _ \<Rightarrow> raise AssertionError)"

definition method_write_subscript :: "'e write_method" where
  "method_write_subscript elem arg =
     (case elem of
        SubscriptObject t \<Rightarrow> write_subscript t (inline_arg arg)
      | _ \<Rightarrow> raise AssertionError)"

definition method_write_technical_term :: "'e write_method" where
  "method_write_technical_term elem arg =
     (case elem of
        TechnicalTermObject t \<Rightarrow> write_technical_term t (inline_arg arg)
      | _ \<Rightarrow> raise AssertionError)"

text \<open>
  The three tables that \<^verbatim>\<open>Writer.__init__\<close> fills, in the order of the source, and
  \<^verbatim>\<open>switcher_all\<close>, their union by \<^verbatim>\<open>dict.update\<close>. The writer methods of classes
  that are not modelled here come from the parameter \<open>other\<close>, by their names.
\<close>

definition switcher_collectable :: "(string \<Rightarrow> 'e write_method) \<Rightarrow> (string \<times> 'e write_method) list" where
  "switcher_collectable other =
     [(''Package'', other ''_write_package''),
      (''CompuMethod'', other ''_write_compu_method''),
      (''ApplicationArrayDataType'', other ''_write_application_array_data_type''),
      (''ApplicationRecordDataType'', other ''_write_application_record_data_type''),
      (''ApplicationPrimitiveDataType'', other ''_write_application_primitive_data_type''),
      (''SwBaseType'', other ''_write_sw_base_type''),
      (''SwAddrMethod'', other ''_write_sw_addr_method''),
      (''ImplementationDataType'', other ''_write_implementation_data_type''),
      (''DataTypeMappingSet'', other ''_write_data_type_mapping_set''),
      (''DataConstraint'', other ''_write_data_constraint''),
      (''Unit'', other ''_write_unit''),
      (''ConstantSpecification'', other ''_write_constant_specification'')]"

definition switcher_value_specification ::
  "(string \<Rightarrow> 'e write_method) \<Rightarrow> (string \<times> 'e write_method) list" where
  "switcher_value_specification other =
     [(''TextValueSpecification'', other ''_write_text_value_specification''),
      (''NumericalValueSpecification'', other ''_write_numerical_value_specification''),
      (''NotAvailableValueSpecification'', other ''_write_not_available_value_specification''),
      (''ArrayValueSpecification'', other ''_write_array_value_specification''),
      (''RecordValueSpecification'', other ''_write_record_value_specification''),
      (''ApplicationValueSpecification'', other ''_write_application_value_specification''),
      (''ConstantReference'', other ''_write_constant_reference'')]"

definition switcher_non_collectable ::
  "('e \<Rightarrow> string) \<Rightarrow> (string \<Rightarrow> 'e write_method) \<Rightarrow> (string \<times> 'e write_method) list" where
  "switcher_non_collectable enum_to_xml other =
     [(''Annotation'', other ''_write_annotation''),
      (''Break'', method_write_break),
      (''DocumentationBlock'', other ''_write_documentation_block''),
      (''EmphasisText'', method_write_emphasis_text enum_to_xml),
      (''IndexEntry'', method_write_index_entry),
      (''MultilanguageLongName'', other ''_write_multi_language_long_name''),
      (''MultiLanguageOverviewParagraph'', method_write_multi_language_overview_paragraph enum_to_xml),
      (''MultiLanguageParagraph'', other ''_write_multi_language_paragraph''),
      (''MultiLanguageVerbatim'', other ''_write_multi_language_verbatim''),
      (''LanguageLongName'', other ''_write_language_long_name''),
      (''LanguageParagraph'', other ''_write_language_paragraph''),
      (''LanguageVerbatim'', other ''_write_language_verbatim''),
      (''Package'', other ''_write_package''),
      (''SingleLanguageUnitNames'', other ''_write_single_language_unit_names''),
      (''Superscript'', method_write_superscript),
      (''Subscript'', method_write_subscript),
      (''TechnicalTerm'', method_write_technical_term),
      (''Computation'', method_write_computation enum_to_xml),
      (''CompuRational'', method_write_compu_rational),
      (''CompuScale'', method_write_compu_scale enum_to_xml),
      (''ScaleConstraint'', other ''_write_scale_constraint''),
      (''InternalConstraint'', other ''_write_internal_constraint''),
      (''PhysicalConstraint'', other ''_write_physical_constraint''),
      (''DataConstraintRule'', other ''_write_data_constraint_rule''),
      (''SwDataDefPropsConditional'', other ''_write_sw_data_def_props_conditional''),
      (''SwBaseTypeRef'', other ''_write_sw_base_type_ref''),
      (''SwBitRepresentation'', other ''_write_sw_bit_represenation''),
      (''SwTextProps'', other ''_write_sw_text_props''),
      (''SwPointerTargetProps'', other ''_write_sw_pointer_target_props''),
      (''SymbolProps'', other ''_write_symbol_props''),
      (''ImplementationDataTypeElement'', other ''_write_implementation_data_type_element''),
      (''ApplicationArrayElement'', other ''_write_application_array_element''),
      (''ApplicationRecordElement'', other ''_write_application_record_element''),
      (''DataTypeMap'', other ''_write_data_type_map''),
      (''ValueList'', other ''_write_value_list''),
      (''SwValues'', other ''_write_sw_values''),
      (''SwAxisCont'', other ''_write_sw_axis_cont''),
      (''SwValueCont'', other ''_write_sw_value_cont''),
      (''PhysicalDimensionRef'', other ''_write_physical_dimension_ref''),
      (''ApplicationDataTypeRef'', other ''_write_application_data_type_ref''),
      (''ConstantRef'', other ''_write_constant_ref'')]"

definition dict_update :: "('k \<times> 'v) list \<Rightarrow> ('k \<times> 'v) list \<Rightarrow> ('k \<times> 'v) list" where
  "dict_update d new = foldl (\<lambda>acc (k, v). dict_set acc k v) d new"

definition switcher_all ::
  "('e \<Rightarrow> string) \<Rightarrow> (string \<Rightarrow> 'e write_method) \<Rightarrow> (string \<times> 'e write_method) list" where
  "switcher_all enum_to_xml other =
     dict_update
       (dict_update (dict_update [] (switcher_collectable other)) (switcher_value_specification other))
       (switcher_non_collectable enum_to_xml other)"

text \<open>
  \<^verbatim>\<open>Writer.write_str_elem(elem, tag)\<close>: the exception raised, if any, or the text
  of the buffer, and the writer it leaves.
\<close>

definition write_str_elem ::
  "('e \<Rightarrow> string) \<Rightarrow> (string \<Rightarrow> 'e write_method) \<Rightarrow> 'e ar_object \<Rightarrow> string option \<Rightarrow> writer
     \<Rightarrow> (error + string) \<times> writer" where
  "write_str_elem enum_to_xml other elem tag w =
     (case run [str_open,
                (case map_of (switcher_all enum_to_xml other) (class_name elem) of
                   Some write_method \<Rightarrow> write_method elem tag
                 | None \<Rightarrow> raise NotImplementedError)] w of
        (Some e, w') \<Rightarrow> (Inl e, w')
      | (None, w') \<Rightarrow> (Inr (getvalue w'), w'))"

text \<open>\<^verbatim>\<open>Writer.write_file_elem(elem, file_path)\<close>.\<close>

definition write_file_elem ::
  "(string \<Rightarrow> bool) \<Rightarrow> (string \<Rightarrow> 'e write_method) \<Rightarrow> 'e ar_object \<Rightarrow> string \<Rightarrow> step" where
  "write_file_elem writable other elem path =
     run [open_file writable path,
          (case map_of (switcher_collectable other) (class_name elem) of
             Some write_method \<Rightarrow> write_method elem None
           | None \<Rightarrow> raise NotImplementedError),
          close]"

subsection \<open>Reading digits back\<close>

text \<open>
  The number that a string of digits denotes in base \<open>b\<close>, as \<^verbatim>\<open>int(s, b)\<close> reads
  it; used to say that a printed number is the right one.
\<close>

definition digit_value :: "char \<Rightarrow> nat" where
  "digit_value c = length (takeWhile (\<lambda>d. d \<noteq> c) ''0123456789abcdef'')"

definition from_base :: "nat \<Rightarrow> string \<Rightarrow> nat" where
  "from_base b s = foldl (\<lambda>acc c. acc * b + digit_value c) 0 s"

subsection \<open>Stand-ins for parameters\<close>

text \<open>
  Values for the parameters of the writer in examples in which the parameter is
  not consulted: every path can be opened, Python's \<^verbatim>\<open>e\<close> format of a float is
  left blank, no string parses as a number, and the writer methods that are not
  modelled raise \<open>NotImplementedError\<close>.
\<close>

definition every_path_writable :: "string \<Rightarrow> bool" where
  "every_path_writable path = True"

definition blank_float_e :: "pyfloat \<Rightarrow> string" where
  "blank_float_e f = []"

definition unmodelled_method :: "string \<Rightarrow> 'e write_method" where
  "unmodelled_method method_name elem arg = raise NotImplementedError"

section \<open>Properties\<close>

subsection \<open>Reading the store after an update\<close>

lemma dict_contains_set: "dict_contains (dict_set d k v) k"
  by (simp add: dict_contains_def dict_set_def update_conv)

lemma get_obj_update: "get_obj (s[i := x]) j = (if i = j \<and> i < length s then x else get_obj s j)"
  by (simp add: get_obj_def)

lemma get_obj_in_range: "get_obj s i \<noteq> OtherObj \<Longrightarrow> i < length s"
  by (auto simp: get_obj_def split: if_splits)

lemma get_obj_snoc: "get_obj (s @ [x]) j = (if j = length s then x else get_obj s j)"
  by (auto simp: get_obj_def nth_append)

lemma get_obj_set_parent:
  "get_obj (set_parent s i v) j =
     (if i = j then (case get_obj s i of PackageObj pk \<Rightarrow> PackageObj (pk\<lparr>parent := v\<rparr>)
                      | ElementObj el \<Rightarrow> ElementObj (el\<lparr>parent := v\<rparr>) | x \<Rightarrow> x)
      else get_obj s j)"
proof (cases "get_obj s i")
  case (PackageObj pk)
  then have "i < length s" by (simp add: get_obj_in_range)
  with PackageObj show ?thesis by (auto simp: set_parent_def get_obj_update)
next
  case (ElementObj el)
  then have "i < length s" by (simp add: get_obj_in_range)
  with ElementObj show ?thesis by (auto simp: set_parent_def get_obj_update)
qed (auto simp: set_parent_def)

lemma get_obj_update_package:
  "get_obj (update_package s i f) j =
     (if i = j then (case get_obj s i of PackageObj t \<Rightarrow> PackageObj (f t) | x \<Rightarrow> x)
      else get_obj s j)"
proof (cases "get_obj s i")
  case (PackageObj pk)
  then have "i < length s" by (simp add: get_obj_in_range)
  with PackageObj show ?thesis by (auto simp: update_package_def get_obj_update)
qed (auto simp: update_package_def)

lemmas store_eval = get_obj_def set_parent_def update_package_def dict_contains_def dict_set_def
  Let_def example_store_def example_store_appended_def example_store_moved_def

subsection \<open>Duplicate short names\<close>

text \<open>After a successful append the item's name is a key of the package's index.\<close>

lemma append_ok_indexed:
  assumes "Package_append p a s = (None, s1)"
  shows "\<exists>t n. get_obj s1 p = PackageObj t \<and> short_name (get_obj s1 a) = Some n
           \<and> dict_contains (collection_map t) n"
proof -
  obtain pk where pk: "get_obj s p = PackageObj pk"
    using assms by (auto simp: Package_append_def split: obj.splits)
  show ?thesis
  proof (cases "get_obj s a")
    case (PackageObj pkg)
    with assms pk show ?thesis
      by (auto simp: Package_append_def Let_def get_obj_set_parent get_obj_update_package
            short_name_def dict_contains_set split: if_splits)
  next
    case (ElementObj elem)
    with assms pk show ?thesis
      by (auto simp: Package_append_def Let_def get_obj_set_parent get_obj_update_package
            short_name_def dict_contains_set split: if_splits)
  qed (use assms pk in \<open>simp_all add: Package_append_def\<close>)
qed

text \<open>
  Claim C1. Let \<open>p.append(a)\<close> succeed and leave the store \<open>s1\<close>, and let \<open>b\<close> be a
  package or an element with the short name of \<open>a\<close>. Then \<open>p.append(b)\<close> raises
  \<open>ValueError\<close>, and the store it leaves is \<open>s1\<close>: neither the element list, the
  package list and the name index of \<open>p\<close> nor any other object has changed.
\<close>

theorem append_duplicate_rejected:
  assumes "Package_append p a s = (None, s1)"
    and "short_name (get_obj s1 a) = Some n"
    and "short_name (get_obj s1 b) = Some n"
  shows "Package_append p b s1 = (Some ValueError, s1)"
proof -
  from append_ok_indexed [OF assms(1)] assms(2)
  obtain t where t: "get_obj s1 p = PackageObj t" "dict_contains (collection_map t) n"
    by auto
  from assms(3) t show ?thesis
    by (auto simp: Package_append_def short_name_def split: obj.splits)
qed

theorem append_duplicate_rejected_witness:
  "Package_append 4 6 example_store = (None, example_store_appended)
   \<and> short_name (get_obj example_store_appended 6) = Some ''C''
   \<and> short_name (get_obj example_store_appended 5) = Some ''C''
   \<and> Package_append 4 5 example_store_appended = (Some ValueError, example_store_appended)"
proof -
  have h1: "Package_append 4 6 example_store = (None, example_store_appended)"
    by (simp add: Package_append_def store_eval)
  have h2: "short_name (get_obj example_store_appended 6) = Some ''C''"
    by (simp add: short_name_def store_eval)
  have h3: "short_name (get_obj example_store_appended 5) = Some ''C''"
    by (simp add: short_name_def store_eval)
  from h1 h2 h3 append_duplicate_rejected [OF h1 h2 h3] show ?thesis by simp
qed

subsection \<open>Creating a sub-package\<close>

text \<open>
  Claim C10. For a package \<open>p\<close> and a name \<open>n\<close> that is a key of its index,
  \<open>p.create_package(n)\<close> raises nothing: it returns a \<open>ValueError\<close> object as its
  value and leaves the store as it was. When \<open>n\<close> is not a key (and the keyword
  arguments are accepted) it allocates a package named \<open>n\<close> with parent \<open>p\<close>, enters
  it in the index and in the package list of \<open>p\<close>, touches no other object, and
  returns it. A package is returned only when \<open>n\<close> was not a key.
\<close>

theorem create_package_returns_exception:
  assumes "get_obj s p = PackageObj pk"
  shows "(dict_contains (collection_map pk) n \<longrightarrow>
            create_package p n kw s = (Inr (ReturnedException ValueError), s))
       \<and> (\<not> dict_contains (collection_map pk) n \<and> kw = None \<longrightarrow>
            (\<exists>s'. create_package p n kw s = (Inr (ReturnedPackage (length s)), s')
               \<and> get_obj s' (length s) =
                   PackageObj \<lparr>name = n, parent = Some p, elements = [], packages = [],
                               collection_map = []\<rparr>
               \<and> get_obj s' p =
                   PackageObj (pk\<lparr>packages := packages pk @ [length s],
                                  collection_map := dict_set (collection_map pk) n (length s)\<rparr>)
               \<and> (\<forall>j. j \<noteq> p \<and> j \<noteq> length s \<longrightarrow> get_obj s' j = get_obj s j)))
       \<and> (\<forall>i s'. create_package p n kw s = (Inr (ReturnedPackage i), s') \<longrightarrow>
             \<not> dict_contains (collection_map pk) n)"
proof -
  from assms have "p < length s" by (simp add: get_obj_in_range)
  then have neq: "p \<noteq> length s" by simp
  show ?thesis
    using assms neq
    by (auto simp: create_package_def Package_init_def Let_def get_obj_set_parent
          get_obj_update_package get_obj_snoc split: option.splits)
qed

theorem create_package_returns_exception_witness:
  "get_obj example_store 1 =
     PackageObj \<lparr>name = ''A'', parent = Some 0, elements = [], packages = [2, 4],
                 collection_map = [(''B'', 2), (''E'', 4)]\<rparr>
   \<and> dict_contains [(''B'', 2), (''E'', 4::nat)] ''B''
   \<and> create_package 1 ''B'' None example_store = (Inr (ReturnedException ValueError), example_store)
   \<and> \<not> dict_contains [(''B'', 2), (''E'', 4::nat)] ''F''
   \<and> fst (create_package 1 ''F'' None example_store) = Inr (ReturnedPackage 7)
   \<and> get_obj (snd (create_package 1 ''F'' None example_store)) 7 =
       PackageObj \<lparr>name = ''F'', parent = Some 1, elements = [], packages = [], collection_map = []\<rparr>"
proof -
  have h: "get_obj example_store 1 =
     PackageObj \<lparr>name = ''A'', parent = Some 0, elements = [], packages = [2, 4],
                 collection_map = [(''B'', 2), (''E'', 4)]\<rparr>"
    by (simp add: store_eval)
  have l: "length example_store = 7" by (simp add: example_store_def)
  have c1: "dict_contains [(''B'', 2), (''E'', 4::nat)] ''B''" by (simp add: dict_contains_def)
  have c2: "\<not> dict_contains [(''B'', 2), (''E'', 4::nat)] ''F''" by (simp add: dict_contains_def)
  from create_package_returns_exception [OF h, of "''B''" None] c1
  have r1: "create_package 1 ''B'' None example_store
              = (Inr (ReturnedException ValueError), example_store)"
    by simp
  from create_package_returns_exception [OF h, of "''F''" None] c2 l
  have r2: "fst (create_package 1 ''F'' None example_store) = Inr (ReturnedPackage 7)
     \<and> get_obj (snd (create_package 1 ''F'' None example_store)) 7 =
       PackageObj \<lparr>name = ''F'', parent = Some 1, elements = [], packages = [], collection_map = []\<rparr>"
    by auto
  from h c1 c2 r1 r2 show ?thesis by blast
qed

subsection \<open>Destination kinds of references\<close>

text \<open>
  Claim C5. On a \<open>CompuMethodRef\<close> the base constructor raises \<open>ValueError\<close> for
  every destination kind other than \<open>COMPU_METHOD\<close>; with \<open>COMPU_METHOD\<close> it
  succeeds, whatever the path, and the string conversion of the reference is the path
  given. \<open>CompuMethodRef(value)\<close> is that successful call. The constructor reads
  no package tree, so it cannot resolve the path.
\<close>

theorem CompuMethodRef_destination_check:
  "(d \<noteq> COMPU_METHOD \<longrightarrow> BaseRef_init CompuMethodRef v d = Inl ValueError)
   \<and> (\<exists>r. BaseRef_init CompuMethodRef v COMPU_METHOD = Inr r \<and> ref_str r = v
           \<and> dest r = Some COMPU_METHOD)
   \<and> CompuMethodRef_init v = BaseRef_init CompuMethodRef v COMPU_METHOD"
  by (simp add: BaseRef_init_def CompuMethodRef_init_def ref_str_def)

theorem CompuMethodRef_destination_check_witness:
  "UNIT \<noteq> COMPU_METHOD
   \<and> BaseRef_init CompuMethodRef ''/A/B/C'' UNIT = Inl ValueError
   \<and> (\<exists>r. CompuMethodRef_init ''/A/B/C'' = Inr r \<and> ref_str r = ''/A/B/C'')"
  using CompuMethodRef_destination_check [of UNIT "''/A/B/C''"] by auto

subsection \<open>Reference paths\<close>

lemma join_snoc: "xs \<noteq> [] \<Longrightarrow> join sep (xs @ [x]) = join sep xs @ sep @ x"
  by (induction sep xs rule: join.induct) auto

text \<open>The walk only ever adds to the end of the list it is given.\<close>

lemma update_ref_parts_prefix:
  "update_ref_parts depth s p ys = Inr r \<Longrightarrow> update_ref_parts depth s p (xs @ ys) = Inr (xs @ r)"
proof (induction depth s p ys arbitrary: r rule: update_ref_parts.induct)
  case (1 depth s ref_parts)
  then show ?case by simp
next
  case (2 depth s i ref_parts)
  then show ?case
    by (auto simp: Document_update_ref_parts_def split: obj.splits nat.splits)
qed

lemma update_ref_parts_extends:
  "update_ref_parts depth s p ys = Inr r \<Longrightarrow> \<exists>rest. r = ys @ rest"
proof (induction depth s p ys arbitrary: r rule: update_ref_parts.induct)
  case (1 depth s ref_parts)
  then show ?case by simp
next
  case (2 depth s i ref_parts)
  then show ?case
    by (fastforce simp: Document_update_ref_parts_def split: obj.splits nat.splits)
qed

lemma update_ref_parts_package_nonempty:
  assumes "update_ref_parts depth s (Some q) [] = Inr parts" and "get_obj s q = PackageObj pq"
  shows "parts \<noteq> []"
proof -
  from assms obtain d where "update_ref_parts d s (parent pq) [name pq] = Inr parts"
    by (auto split: nat.splits)
  from update_ref_parts_extends [OF this] show ?thesis by auto
qed

lemma ref_path_via_parent:
  assumes "parent el = Some q" and "get_obj s q = PackageObj pq"
    and "update_ref_parts depth s (Some q) [] = Inr qparts"
  shows "ref_path depth s el = Inr (join ''/'' (rev qparts) @ ''/'' @ name el)"
proof -
  from update_ref_parts_prefix [OF assms(3), of "[name el]"]
  have "update_ref_parts depth s (Some q) [name el] = Inr (name el # qparts)" by simp
  moreover have "rev qparts \<noteq> []"
    using update_ref_parts_package_nonempty [OF assms(3) assms(2)] by simp
  ultimately show ?thesis
    using assms(1) by (simp add: ref_path_def join_snoc)
qed

lemma ref_with_parent:
  assumes "get_obj s c = ElementObj el" and "parent el = Some q"
    and "ref_path depth s el = Inr v"
    and "cls el \<notin> {Unit, DataTypeMappingSet, SenderReceiverInterface, ApplicationSoftwareComponentType}"
  shows "\<exists>r. ref depth s c = Inr (Some r) \<and> ref_str r = v"
  using assms
  by (cases "cls el")
     (simp_all add: ref_def ref_or_none_def ref_asserted_def BaseRef_init_def ref_str_def
        CompuMethodRef_init_def DataConstraintRef_init_def SwBaseTypeRef_init_def
        ImplementationDataTypeRef_init_def SwAddrMethodRef_init_def ConstantRef_init_def)

lemma ref_without_parent:
  assumes "get_obj s c = ElementObj el" and "parent el = None"
  shows "(cls el \<in> {CompuMethod, SwBaseType, ImplementationDataType, ApplicationPrimitiveDataType,
                    ApplicationArrayDataType, ApplicationRecordDataType} \<longrightarrow> ref depth s c = Inr None)
       \<and> (cls el \<in> {DataConstraint, SwAddrMethod, ConstantSpecification} \<longrightarrow>
             ref depth s c = Inl AssertionError)"
  using assms
  by (cases "cls el") (simp_all add: ref_def ref_or_none_def ref_asserted_def)

lemma chain_parts:
  assumes "get_obj s b = PackageObj pb" "parent pb = Some a"
    "get_obj s a = PackageObj pa" "parent pa = Some d" "get_obj s d = DocumentObj" "2 \<le> depth"
  shows "update_ref_parts depth s (Some b) [] = Inr [name pb, name pa]"
proof -
  from assms(6) obtain k where "depth = Suc (Suc k)"
    by (metis Suc_le_D numeral_2_eq_2 Suc_le_mono)
  with assms show ?thesis by (simp add: Document_update_ref_parts_def)
qed

lemma append_element_parent:
  assumes "Package_append q c s = (None, s')" and "get_obj s c = ElementObj el"
  shows "get_obj s' c = ElementObj (el\<lparr>parent := Some q\<rparr>) \<and> (\<exists>pq. get_obj s' q = PackageObj pq)"
proof -
  obtain pk where pk: "get_obj s q = PackageObj pk"
    using assms by (auto simp: Package_append_def split: obj.splits)
  with assms have "q \<noteq> c" by auto
  with assms pk show ?thesis
    by (auto simp: Package_append_def Let_def get_obj_set_parent get_obj_update_package
          split: if_splits)
qed

text \<open>
  Claim C4, as stated, at the parentless data constraint of the example tree: its
  \<open>ref()\<close> fails the assertion \<^verbatim>\<open>self.parent is not None\<close> and returns nothing,
  not \<^verbatim>\<open>None\<close>.
\<close>

theorem ref_without_parent_counterexample:
  "get_obj example_store 5 = ElementObj \<lparr>name = ''C'', parent = None, cls = DataConstraint\<rparr>
   \<and> ref 1000 example_store 5 = Inl AssertionError
   \<and> ref 1000 example_store 5 \<noteq> Inr None"
  by (simp add: ref_def ref_asserted_def store_eval)

text \<open>
  Claim C4, amended. Let \<open>c\<close> be an element of a class that has a \<open>ref\<close> method.
  (1) If \<open>c\<close> is owned by package \<open>b\<close>, \<open>b\<close> by package \<open>a\<close> and \<open>a\<close> by the document,
  \<open>c.ref()\<close> is a reference whose path is the three short names joined by slashes
  (\<open>A/B/C\<close> for the names A, B, C), read off the parent links at the time of the call.
  (2) After \<open>q.append(c)\<close> has succeeded, \<open>c.ref()\<close> is the path of \<open>q\<close> in the store
  of that moment, a slash and the name of \<open>c\<close>; nothing of the old location is left.
  (3) An element without a parent yields \<^verbatim>\<open>None\<close> when it is a CompuMethod, a
  SwBaseType, an ImplementationDataType or an application data type, and an
  \<open>AssertionError\<close> when it is a DataConstraint, a SwAddrMethod or a
  ConstantSpecification.
\<close>

theorem ref_path_derivation:
  "(get_obj s c = ElementObj el \<and> parent el = Some b
      \<and> cls el \<notin> {Unit, DataTypeMappingSet, SenderReceiverInterface, ApplicationSoftwareComponentType}
      \<and> get_obj s b = PackageObj pb \<and> parent pb = Some a
      \<and> get_obj s a = PackageObj pa \<and> parent pa = Some d \<and> get_obj s d = DocumentObj
      \<and> 2 \<le> depth
     \<longrightarrow> (\<exists>r. ref depth s c = Inr (Some r)
              \<and> ref_str r = name pa @ ''/'' @ name pb @ ''/'' @ name el))
   \<and> (get_obj s c = ElementObj el
      \<and> cls el \<notin> {Unit, DataTypeMappingSet, SenderReceiverInterface, ApplicationSoftwareComponentType}
      \<and> Package_append q c s = (None, s')
      \<and> update_ref_parts depth s' (Some q) [] = Inr qparts
     \<longrightarrow> (\<exists>r. ref depth s' c = Inr (Some r)
              \<and> ref_str r = join ''/'' (rev qparts) @ ''/'' @ name el))
   \<and> (get_obj s c = ElementObj el \<and> parent el = None
     \<longrightarrow> (cls el \<in> {CompuMethod, SwBaseType, ImplementationDataType, ApplicationPrimitiveDataType,
                      ApplicationArrayDataType, ApplicationRecordDataType} \<longrightarrow> ref depth s c = Inr None)
       \<and> (cls el \<in> {DataConstraint, SwAddrMethod, ConstantSpecification} \<longrightarrow>
             ref depth s c = Inl AssertionError))"
proof (intro conjI impI)
  assume h: "get_obj s c = ElementObj el \<and> parent el = Some b
      \<and> cls el \<notin> {Unit, DataTypeMappingSet, SenderReceiverInterface, ApplicationSoftwareComponentType}
      \<and> get_obj s b = PackageObj pb \<and> parent pb = Some a
      \<and> get_obj s a = PackageObj pa \<and> parent pa = Some d \<and> get_obj s d = DocumentObj
      \<and> 2 \<le> depth"
  then have "update_ref_parts depth s (Some b) [] = Inr [name pb, name pa]"
    using chain_parts [of s b pb a pa d depth] by blast
  with h have "ref_path depth s el = Inr (join ''/'' (rev [name pb, name pa]) @ ''/'' @ name el)"
    by (intro ref_path_via_parent) auto
  then have "ref_path depth s el = Inr (name pa @ ''/'' @ name pb @ ''/'' @ name el)" by simp
  with h show "\<exists>r. ref depth s c = Inr (Some r)
                 \<and> ref_str r = name pa @ ''/'' @ name pb @ ''/'' @ name el"
    by (intro ref_with_parent) auto
next
  assume h: "get_obj s c = ElementObj el
      \<and> cls el \<notin> {Unit, DataTypeMappingSet, SenderReceiverInterface, ApplicationSoftwareComponentType}
      \<and> Package_append q c s = (None, s')
      \<and> update_ref_parts depth s' (Some q) [] = Inr qparts"
  then obtain pq where c': "get_obj s' c = ElementObj (el\<lparr>parent := Some q\<rparr>)"
    and q': "get_obj s' q = PackageObj pq"
    using append_element_parent by blast
  from h q' have "ref_path depth s' (el\<lparr>parent := Some q\<rparr>)
      = Inr (join ''/'' (rev qparts) @ ''/'' @ name (el\<lparr>parent := Some q\<rparr>))"
    by (intro ref_path_via_parent) auto
  with h c' show "\<exists>r. ref depth s' c = Inr (Some r)
                    \<and> ref_str r = join ''/'' (rev qparts) @ ''/'' @ name el"
    using ref_with_parent [of s' c "el\<lparr>parent := Some q\<rparr>" q depth] by auto
qed (use ref_without_parent in blast)+

theorem ref_path_derivation_witness:
  "(\<exists>r. ref 1000 example_store 3 = Inr (Some r) \<and> ref_str r = ''A/B/C'')
   \<and> Package_append 4 3 example_store = (None, example_store_moved)
   \<and> update_ref_parts 1000 example_store_moved (Some 4) [] = Inr [''E'', ''A'']
   \<and> (\<exists>r. ref 1000 example_store_moved 3 = Inr (Some r) \<and> ref_str r = ''A/E/C'')
   \<and> ref 1000 example_store 6 = Inr None
   \<and> ref 1000 example_store 5 = Inl AssertionError"
proof -
  have g3: "get_obj example_store 3 = ElementObj \<lparr>name = ''C'', parent = Some 2, cls = CompuMethod\<rparr>"
    and g2: "get_obj example_store 2 = PackageObj \<lparr>name = ''B'', parent = Some 1, elements = [3],
               packages = [], collection_map = [(''C'', 3)]\<rparr>"
    and g1: "get_obj example_store 1 = PackageObj \<lparr>name = ''A'', parent = Some 0, elements = [],
               packages = [2, 4], collection_map = [(''B'', 2), (''E'', 4)]\<rparr>"
    and g0: "get_obj example_store 0 = DocumentObj"
    and g5: "get_obj example_store 5 = ElementObj \<lparr>name = ''C'', parent = None, cls = DataConstraint\<rparr>"
    and g6: "get_obj example_store 6 = ElementObj \<lparr>name = ''C'', parent = None, cls = CompuMethod\<rparr>"
    by (simp_all add: store_eval)
  have mv: "Package_append 4 3 example_store = (None, example_store_moved)"
    by (simp add: Package_append_def store_eval)
  have qp: "update_ref_parts 1000 example_store_moved (Some 4) [] = Inr [''E'', ''A'']"
    by code_simp
  let ?C = "\<lparr>name = ''C'', parent = Some 2, cls = CompuMethod\<rparr>"
  let ?B = "\<lparr>name = ''B'', parent = Some 1, elements = [3],
               packages = [], collection_map = [(''C'', 3)]\<rparr>"
  let ?A = "\<lparr>name = ''A'', parent = Some 0, elements = [],
               packages = [2, 4], collection_map = [(''B'', 2), (''E'', 4)]\<rparr>"
  have p1: "\<exists>r. ref 1000 example_store 3 = Inr (Some r) \<and> ref_str r = ''A/B/C''"
    using ref_path_derivation [where s = example_store and c = 3 and el = ?C and b = 2
        and pb = ?B and a = 1 and pa = ?A and d = 0 and depth = 1000] g3 g2 g1 g0
    by simp
  have p2: "\<exists>r. ref 1000 example_store_moved 3 = Inr (Some r) \<and> ref_str r = ''A/E/C''"
    using ref_path_derivation [where s = example_store and c = 3 and el = ?C and depth = 1000
        and q = 4 and s' = example_store_moved and qparts = "[''E'', ''A'']"] g3 mv qp
    by simp
  have p3: "ref 1000 example_store 6 = Inr None"
    using ref_path_derivation [where s = example_store and c = 6
        and el = "\<lparr>name = ''C'', parent = None, cls = CompuMethod\<rparr>" and depth = 1000] g6
    by simp
  have p4: "ref 1000 example_store 5 = Inl AssertionError"
    using ref_path_derivation [where s = example_store and c = 5
        and el = "\<lparr>name = ''C'', parent = None, cls = DataConstraint\<rparr>" and depth = 1000] g5
    by simp
  from p1 mv qp p2 p3 p4 show ?thesis by blast
qed

subsection \<open>Building value specifications\<close>






text \<open>The children of an array are built from the rest of the list, in its order.\<close>

lemma make_values_length: "make_values vs = Inr xs \<Longrightarrow> length xs = length vs"
  by (induction vs arbitrary: xs) (auto split: sum.splits)

lemma make_values_nth:
  "make_values vs = Inr xs \<Longrightarrow> i < length vs \<Longrightarrow> make_value (vs ! i) = Inr (xs ! i)"
proof (induction vs arbitrary: xs i)
  case Nil
  then show ?case by simp
next
  case (Cons v vs)
  then show ?case by (cases i) (auto split: sum.splits)
qed

subsection \<open>The physical dimension of a unit\<close>

text \<open>
  Claim C9. Whenever \<open>Unit(name, display_name = d, physical_dimension_ref = p)\<close>
  with two strings \<open>d\<close> and \<open>p\<close> returns a unit, the reference it stores is a
  \<open>PhysicalDimensionRef\<close> whose path is \<open>d\<close>, the display name; when the two strings
  differ, the path is not \<open>p\<close>.
\<close>

theorem Unit_physical_dimension_ref_reuses_display_name:
  assumes "Unit_init to_float nm (ArgStr d) factor_arg offset_arg (ArgStr p) kwargs_error = Inr u"
  shows "physical_dimension_ref u = Some (BaseRef PhysicalDimensionRef (ArgStr d) (Some PHYSICAL_DIMENSION))
       \<and> (d \<noteq> p \<longrightarrow> map_option ref_str (physical_dimension_ref u) \<noteq> Some (ArgStr p))"
  using assms
  by (auto simp: Unit_init_def PhysicalDimensionRef_init_def BaseRef_init_def ref_str_def
        split: option.splits sum.splits)

theorem Unit_physical_dimension_ref_reuses_display_name_witness:
  "Unit_init (\<lambda>v. Inl TypeError :: error + unit) ''Volt'' (ArgStr ''V'') PyNone PyNone (ArgStr ''/Dim/Voltage'') None
     = Inr \<lparr>name = ''Volt'', parent = None,
            display_name = Some (SingleLanguageUnitNames [UnitNameStr ''V'']),
            physical_dimension_ref = Some (BaseRef PhysicalDimensionRef (ArgStr ''V'') (Some PHYSICAL_DIMENSION)),
            factor = None, offset = None\<rparr>
   \<and> ''V'' \<noteq> ''/Dim/Voltage''
   \<and> map_option ref_str (Some (BaseRef PhysicalDimensionRef (ArgStr ''V'') (Some PHYSICAL_DIMENSION)))
       \<noteq> Some (ArgStr ''/Dim/Voltage'')"
proof -
  have h: "Unit_init (\<lambda>v. Inl TypeError :: error + unit) ''Volt'' (ArgStr ''V'') PyNone PyNone (ArgStr ''/Dim/Voltage'') None
     = Inr \<lparr>name = ''Volt'', parent = None,
            display_name = Some (SingleLanguageUnitNames [UnitNameStr ''V'']),
            physical_dimension_ref = Some (BaseRef PhysicalDimensionRef (ArgStr ''V'') (Some PHYSICAL_DIMENSION)),
            factor = None, offset = None\<rparr>"
    by (simp add: Unit_init_def PhysicalDimensionRef_init_def BaseRef_init_def
          SingleLanguageUnitNames_of_str_def assign_optional_float_def)
  from Unit_physical_dimension_ref_reuses_display_name [OF h] h show ?thesis by simp
qed


end
